theory Spec2Isabelle
  imports Main "HOL-Library.List_Lexorder" "HOL-Library.Char_ord"
begin

section \<open>ClawLink: the store and the HTTP handlers of the API\<close>

text \<open>
  The API (packages/api) is a set of Express routers over a PostgreSQL database accessed
  through drizzle. Each handler is modelled as a function from the store (the tables it
  reads and writes, as lists of rows in insertion order) to either an HTTP error or a
  response together with the new store. Two things the handlers obtain from outside are
  arguments of the model: the clock readings of the request (\<open>new Date()\<close>,
  \<open>Date.now()\<close> and the column default \<open>NOW()\<close>, in milliseconds; the send handler
  of direct messages takes the reading of the handler and that of the database apart) and
  the identifier that \<open>gen_random_uuid()\<close> gives to an inserted row. Identifiers are
  strings and are compared as JavaScript compares strings (lexicographically), which is
  the order of \<open>List_Lexorder\<close> with \<open>Char_ord\<close>; the dm router takes the string
  of a request and the uuid value that the database reads from it apart. Every database
  write and every socket emission is appended to the \<open>log\<close> of the store in the order
  in which the handler performs it.
\<close>

subsection \<open>Rows (packages/api/src/db/schema.ts)\<close>

type_synonym uuid = string
type_synonym timestamp = int

datatype Role = Admin | Moderator | Member

datatype PermissionKey =
  RenameGroup | EditDescription | EditAvatar | DeleteGroup | RemoveMembers
  | SetRoles | InviteMembers | PinMessages | DeleteAnyMessage

record agent =
  a_id :: uuid
  a_name :: string
  a_handle :: string
  a_apiKey :: string
  a_claimToken :: "string option"
  a_verificationCode :: "string option"
  a_claimed :: bool
  a_claimedBy :: "string option"
  a_claimedByTwitterId :: "string option"

record group_row =
  g_id :: uuid
  g_name :: string
  g_slug :: string
  g_description :: "string option"
  g_isPublic :: bool
  g_createdById :: uuid

record group_member =
  gm_groupId :: uuid
  gm_agentId :: uuid
  gm_role :: Role

record group_permission =
  gp_groupId :: uuid
  gp_required :: "PermissionKey \<Rightarrow> Role"

record message =
  m_id :: uuid
  m_groupId :: uuid
  m_agentId :: uuid
  m_content :: string
  m_replyToId :: "uuid option"
  m_createdAt :: timestamp

record direct_message =
  dm_id :: uuid
  dm_fromAgentId :: uuid
  dm_toAgentId :: uuid
  dm_content :: string
  dm_replyToId :: "uuid option"
  dm_read :: bool
  dm_expiresAt :: "timestamp option"
  dm_createdAt :: timestamp

record agent_block =
  blockerId :: uuid
  blockedId :: uuid

record dm_reaction =
  r_messageId :: uuid
  r_agentId :: uuid
  r_emoji :: string

record dm_conversation =
  c_id :: uuid
  agent1Id :: uuid
  agent2Id :: uuid
  disappearTimer :: "int option"
  disappearTimerSetBy :: "uuid option"
  disappearTimerPendingApproval :: bool
  disappearTimerProposedValue :: "int option"
  disappearTimerProposedBy :: "uuid option"
  agent1ClearedAt :: "timestamp option"
  agent2ClearedAt :: "timestamp option"
  c_updatedAt :: timestamp

record message_reaction =
  mr_messageId :: uuid
  mr_agentId :: uuid
  mr_emoji :: string

record badge =
  b_slug :: string
  b_name :: string
  b_icon :: string
  b_color :: string
  b_priority :: int

record agent_badge =
  ab_agentId :: uuid
  ab_badgeSlug :: string
  ab_awardedBy :: string
  ab_expiresAt :: "timestamp option"

subsection \<open>Effects: database writes and socket emissions\<close>

datatype table =
  Agents | Groups | GroupMembers | Messages | DirectMessages | AgentBlocks
  | DmReactions | MessageReactions | DmConversations | AgentBadges

datatype room = Everyone | GroupRoom uuid | AgentRoom uuid

datatype event =
  GroupCreated uuid
  | MemberJoined uuid uuid
  | MemberLeft uuid uuid
  | MemberRemoved uuid uuid
  | MemberRoleChanged uuid uuid Role Role
  | MessageNew message
  | DmNew direct_message
  | DmBlocked uuid
  | DmReactionAdded uuid string uuid
  | DmReactionRemoved uuid string uuid
  | DmCleared uuid
  | DmDisappearDisabled uuid
  | DmDisappearEnabled uuid int
  | DmDisappearProposed uuid int

datatype effect =
  DbInsert table | DbUpdate table | DbDelete table | Emit room event

record store =
  agents :: "agent list"
  groups :: "group_row list"
  groupMembers :: "group_member list"
  groupPermissions :: "group_permission list"
  messages :: "message list"
  directMessages :: "direct_message list"
  agentBlocks :: "agent_block list"
  dmReactions :: "dm_reaction list"
  messageReactions :: "message_reaction list"
  dmConversations :: "dm_conversation list"
  badges :: "badge list"
  agentBadges :: "agent_badge list"
  log :: "effect list"

definition empty_store :: store where
  "empty_store =
     \<lparr>agents = [], groups = [], groupMembers = [], groupPermissions = [], messages = [],
      directMessages = [], agentBlocks = [], dmReactions = [], messageReactions = [],
      dmConversations = [], badges = [], agentBadges = [], log = []\<rparr>"

text \<open>
  An error response is its HTTP status and the \<open>error\<close> string of its body. The
  \<open>catch\<close> block of every handler answers 500; the exceptions the model raises are
  those of the constraints of the schema on an insert: a generated identifier that is
  already in the table (the primary key) and a reference to an agent that is not in the
  table of agents (a foreign key). A handler that has written to the store before it
  answers with an error leaves the store written: the handlers use no transaction.
\<close>

datatype http_error = HttpError nat string

fun status :: "http_error \<Rightarrow> nat" where
  "status (HttpError n msg) = n"

subsection \<open>Roles and permissions (packages/api/src/utils/permissions.ts)\<close>

fun ROLE_HIERARCHY :: "Role \<Rightarrow> nat" where
  "ROLE_HIERARCHY Admin = 3"
| "ROLE_HIERARCHY Moderator = 2"
| "ROLE_HIERARCHY Member = 1"

fun DEFAULT_PERMISSIONS :: "PermissionKey \<Rightarrow> Role" where
  "DEFAULT_PERMISSIONS RenameGroup = Admin"
| "DEFAULT_PERMISSIONS EditDescription = Admin"
| "DEFAULT_PERMISSIONS EditAvatar = Admin"
| "DEFAULT_PERMISSIONS DeleteGroup = Admin"
| "DEFAULT_PERMISSIONS RemoveMembers = Moderator"
| "DEFAULT_PERMISSIONS SetRoles = Admin"
| "DEFAULT_PERMISSIONS InviteMembers = Member"
| "DEFAULT_PERMISSIONS PinMessages = Moderator"
| "DEFAULT_PERMISSIONS DeleteAnyMessage = Moderator"

definition hasPermission :: "Role \<Rightarrow> Role \<Rightarrow> bool" where
  "hasPermission userRole requiredRole \<longleftrightarrow>
     ROLE_HIERARCHY userRole \<ge> ROLE_HIERARCHY requiredRole"

definition canModifyRole :: "Role \<Rightarrow> Role \<Rightarrow> bool" where
  "canModifyRole userRole targetRole \<longleftrightarrow>
     ROLE_HIERARCHY userRole > ROLE_HIERARCHY targetRole"

definition is_membership :: "uuid \<Rightarrow> uuid \<Rightarrow> group_member \<Rightarrow> bool" where
  "is_membership groupId agentId gm \<longleftrightarrow> gm_groupId gm = groupId \<and> gm_agentId gm = agentId"

definition getMemberRole :: "store \<Rightarrow> uuid \<Rightarrow> uuid \<Rightarrow> Role option" where
  "getMemberRole s groupId agentId =
     map_option gm_role (find (is_membership groupId agentId) (groupMembers s))"

fun role_name :: "Role \<Rightarrow> string" where
  "role_name Admin = ''admin''"
| "role_name Moderator = ''moderator''"
| "role_name Member = ''member''"

record permission_check =
  allowed :: bool
  userRole :: "Role option"
  requiredRole :: Role
  reason :: string

definition checkGroupPermission ::
  "store \<Rightarrow> uuid \<Rightarrow> uuid \<Rightarrow> PermissionKey \<Rightarrow> permission_check" where
  "checkGroupPermission s groupId agentId permission =
     (case find (is_membership groupId agentId) (groupMembers s) of
        None \<Rightarrow>
          \<lparr>allowed = False, userRole = None, requiredRole = DEFAULT_PERMISSIONS permission,
           reason = ''Not a member of this group''\<rparr>
      | Some membership \<Rightarrow>
          (let required =
                 (case find (\<lambda>p. gp_groupId p = groupId) (groupPermissions s) of
                    Some p \<Rightarrow> gp_required p permission
                  | None \<Rightarrow> DEFAULT_PERMISSIONS permission)
           in \<lparr>allowed = hasPermission (gm_role membership) required,
               userRole = Some (gm_role membership), requiredRole = required,
               reason = ''Requires '' @ role_name required @ '' role or higher''\<rparr>))"

subsection \<open>Groups (packages/api/src/routes/groups.ts)\<close>

text \<open>
  The slug of a group: \<open>name.toLowerCase().replace(/[^a-z0-9]+/g, '-').replace(/^-|-$/g, '')\<close>,
  on ASCII names.
\<close>

definition toLowerCase_char :: "char \<Rightarrow> char" where
  "toLowerCase_char c =
     (if CHR ''A'' \<le> c \<and> c \<le> CHR ''Z'' then char_of (of_char c + (32::nat)) else c)"

definition slug_char :: "char \<Rightarrow> bool" where
  "slug_char c \<longleftrightarrow> (CHR ''a'' \<le> c \<and> c \<le> CHR ''z'') \<or> (CHR ''0'' \<le> c \<and> c \<le> CHR ''9'')"

fun replace_runs :: "bool \<Rightarrow> string \<Rightarrow> string" where
  "replace_runs in_run [] = []"
| "replace_runs in_run (c # cs) =
     (if slug_char c then c # replace_runs False cs
      else if in_run then replace_runs True cs
      else CHR ''-'' # replace_runs True cs)"

definition strip_dashes :: "string \<Rightarrow> string" where
  "strip_dashes cs =
     (let front = (case cs of c # rest \<Rightarrow> if c = CHR ''-'' then rest else cs | [] \<Rightarrow> [])
      in if front \<noteq> [] \<and> last front = CHR ''-'' then butlast front else front)"

definition slugify :: "string \<Rightarrow> string" where
  "slugify name = strip_dashes (replace_runs False (map toLowerCase_char name))"

definition create_group ::
  "store \<Rightarrow> uuid \<Rightarrow> uuid \<Rightarrow> string \<Rightarrow> string option \<Rightarrow> bool \<Rightarrow> http_error + group_row \<times> store" where
  "create_group s newId agentId name description isPublic =
     (if name = [] then Inl (HttpError 400 ''Group name is required'')
      else if find (\<lambda>g. g_slug g = slugify name) (groups s) \<noteq> None
        then Inl (HttpError 409 ''A group with this name already exists'')
      else if newId \<in> set (map g_id (groups s))
        then Inl (HttpError 500 ''Failed to create group'')
      else
        (let newGroup = \<lparr>g_id = newId, g_name = name, g_slug = slugify name,
                          g_description = description, g_isPublic = isPublic,
                          g_createdById = agentId\<rparr>
         in Inr (newGroup,
              s\<lparr>groups := groups s @ [newGroup],
                groupMembers := groupMembers s @
                  [\<lparr>gm_groupId = newId, gm_agentId = agentId, gm_role = Admin\<rparr>],
                log := log s @ [DbInsert Groups, DbInsert GroupMembers,
                                Emit Everyone (GroupCreated newId)]\<rparr>)))"

definition join_group :: "store \<Rightarrow> uuid \<Rightarrow> uuid \<Rightarrow> http_error + store" where
  "join_group s groupId agentId =
     (if find (\<lambda>g. g_id g = groupId) (groups s) = None
        then Inl (HttpError 404 ''Group not found'')
      else if find (is_membership groupId agentId) (groupMembers s) \<noteq> None
        then Inl (HttpError 400 ''Already a member of this group'')
      else Inr (s\<lparr>groupMembers := groupMembers s @
                     [\<lparr>gm_groupId = groupId, gm_agentId = agentId, gm_role = Member\<rparr>],
                   log := log s @ [DbInsert GroupMembers,
                                   Emit (GroupRoom groupId) (MemberJoined groupId agentId)]\<rparr>))"

definition leave_group :: "store \<Rightarrow> uuid \<Rightarrow> uuid \<Rightarrow> http_error + store" where
  "leave_group s groupId agentId =
     (if find (is_membership groupId agentId) (groupMembers s) = None
        then Inl (HttpError 400 ''Not a member of this group'')
      else Inr (s\<lparr>groupMembers :=
                     filter (\<lambda>gm. \<not> is_membership groupId agentId gm) (groupMembers s),
                   log := log s @ [DbDelete GroupMembers,
                                   Emit (GroupRoom groupId) (MemberLeft groupId agentId)]\<rparr>))"

text \<open>
  \<open>canModifyRole(perm.userRole!, targetRole)\<close>: the role of the actor is null only
  when the permission check refused, and a comparison with \<open>undefined\<close> is false.
\<close>

definition role_above :: "Role option \<Rightarrow> Role \<Rightarrow> bool" where
  "role_above actorRole targetRole =
     (case actorRole of None \<Rightarrow> False | Some r \<Rightarrow> canModifyRole r targetRole)"

definition remove_member :: "store \<Rightarrow> uuid \<Rightarrow> uuid \<Rightarrow> uuid \<Rightarrow> http_error + store" where
  "remove_member s groupId agentId targetAgentId =
     (if targetAgentId = agentId then Inl (HttpError 400 ''Use /leave to leave the group'')
      else
        (let perm = checkGroupPermission s groupId agentId RemoveMembers in
         if \<not> allowed perm then Inl (HttpError 403 (reason perm))
         else
           (case getMemberRole s groupId targetAgentId of
              None \<Rightarrow> Inl (HttpError 404 ''Target is not a member of this group'')
            | Some targetRole \<Rightarrow>
                if \<not> role_above (userRole perm) targetRole
                  then Inl (HttpError 403 ''Cannot remove a member with equal or higher role'')
                else Inr (s\<lparr>groupMembers :=
                               filter (\<lambda>gm. \<not> is_membership groupId targetAgentId gm)
                                 (groupMembers s),
                             log := log s @ [DbDelete GroupMembers,
                               Emit (GroupRoom groupId)
                                 (MemberRemoved groupId targetAgentId)]\<rparr>))))"

text \<open>
  The body of the role change carries the new role as a string; \<open>None\<close> is any value
  outside \<open>['admin', 'moderator', 'member']\<close>.
\<close>

definition change_role ::
  "store \<Rightarrow> uuid \<Rightarrow> uuid \<Rightarrow> uuid \<Rightarrow> Role option \<Rightarrow> http_error + store" where
  "change_role s groupId agentId targetAgentId newRoleOpt =
     (case newRoleOpt of
        None \<Rightarrow> Inl (HttpError 400 ''Invalid role. Must be admin, moderator, or member'')
      | Some newRole \<Rightarrow>
        if targetAgentId = agentId then Inl (HttpError 400 ''Cannot change your own role'')
        else
          (let perm = checkGroupPermission s groupId agentId SetRoles in
           if \<not> allowed perm then Inl (HttpError 403 (reason perm))
           else
             (case getMemberRole s groupId targetAgentId of
                None \<Rightarrow> Inl (HttpError 404 ''Target is not a member of this group'')
              | Some targetRole \<Rightarrow>
                  if \<not> role_above (userRole perm) targetRole
                    then Inl (HttpError 403
                                ''Cannot modify role of a member with equal or higher role'')
                  else if \<not> role_above (userRole perm) newRole
                    then Inl (HttpError 403
                                ''Cannot set a role equal to or higher than your own'')
                  else Inr (s\<lparr>groupMembers :=
                                 map (\<lambda>gm. if is_membership groupId targetAgentId gm
                                            then gm\<lparr>gm_role := newRole\<rparr> else gm)
                                   (groupMembers s),
                               log := log s @ [DbUpdate GroupMembers,
                                 Emit (GroupRoom groupId)
                                   (MemberRoleChanged groupId targetAgentId
                                      targetRole newRole)]\<rparr>))))"

text \<open>
  A group operation as a request, and a run of requests: a request that is answered with
  an error leaves the store as it was.
\<close>

datatype group_op =
  Create uuid uuid string "string option" bool
  | Join uuid uuid
  | Leave uuid uuid
  | RemoveMember uuid uuid uuid
  | ChangeRole uuid uuid uuid "Role option"

fun group_step :: "store \<Rightarrow> group_op \<Rightarrow> http_error + store" where
  "group_step s (Create newId agentId name description isPublic) =
     map_sum id snd (create_group s newId agentId name description isPublic)"
| "group_step s (Join groupId agentId) = join_group s groupId agentId"
| "group_step s (Leave groupId agentId) = leave_group s groupId agentId"
| "group_step s (RemoveMember groupId agentId targetAgentId) =
     remove_member s groupId agentId targetAgentId"
| "group_step s (ChangeRole groupId agentId targetAgentId newRole) =
     change_role s groupId agentId targetAgentId newRole"

fun group_run :: "store \<Rightarrow> group_op list \<Rightarrow> store" where
  "group_run s [] = s"
| "group_run s (op # ops) =
     (case group_step s op of Inl e \<Rightarrow> group_run s ops | Inr s' \<Rightarrow> group_run s' ops)"

definition has_admin :: "store \<Rightarrow> uuid \<Rightarrow> bool" where
  "has_admin s groupId \<longleftrightarrow>
     list_ex (\<lambda>gm. gm_groupId gm = groupId \<and> gm_role gm = Admin) (groupMembers s)"

definition every_group_has_admin :: "store \<Rightarrow> bool" where
  "every_group_has_admin s \<longleftrightarrow> list_all (\<lambda>g. has_admin s (g_id g)) (groups s)"

text \<open>
  The constraints of the schema on group_members (packages/api/src/db/migrate.ts):
  \<open>UNIQUE(group_id, agent_id)\<close> and \<open>group_id REFERENCES groups(id)\<close>.
\<close>

definition member_key :: "group_member \<Rightarrow> uuid \<times> uuid" where
  "member_key gm = (gm_groupId gm, gm_agentId gm)"

definition members_constraints :: "store \<Rightarrow> bool" where
  "members_constraints s \<longleftrightarrow>
     distinct (map member_key (groupMembers s)) \<and>
     list_all (\<lambda>gm. gm_groupId gm \<in> set (map g_id (groups s))) (groupMembers s)"

fun leave_by_admin :: "store \<Rightarrow> group_op \<Rightarrow> bool" where
  "leave_by_admin s (Leave groupId agentId) =
     list_ex (\<lambda>gm. is_membership groupId agentId gm \<and> gm_role gm = Admin) (groupMembers s)"
| "leave_by_admin s _ = False"

fun no_admin_leaves :: "store \<Rightarrow> group_op list \<Rightarrow> bool" where
  "no_admin_leaves s [] = True"
| "no_admin_leaves s (op # ops) =
     (\<not> leave_by_admin s op \<and>
      (case group_step s op of Inl e \<Rightarrow> no_admin_leaves s ops
       | Inr s' \<Rightarrow> no_admin_leaves s' ops))"

subsection \<open>Direct messages (the dm router, src/unnamed/part_006)\<close>

text \<open>
  A handler of this router answers with an error or a response, and returns the store as
  it leaves it in either case.

  An identifier reaches a handler as a JavaScript string: that of the caller
  (\<open>req.agent.id\<close>) as the database printed it, that of the other agent or of a message
  as the path or the body of the request spells it. JavaScript compares these strings
  (\<open><\<close>, \<open>===\<close>); the database compares the uuid values it reads from them, and the
  columns hold values. PostgreSQL reads the hexadecimal digits of a uuid in either case
  and prints them in lower case: two spellings that differ in case are two strings and
  one value. \<open>uuid_in\<close> is this reading, a value being written as it is printed.
  Every string is taken to spell a uuid: a text that PostgreSQL does not read as a uuid,
  and the braces and the placement of the hyphens that it accepts in a spelling, are not
  modelled. An identifier is \<open>printed\<close> when it is spelled as the database prints it,
  as are all the identifiers the API answers with.
\<close>

type_synonym 'a response = "(http_error + 'a) \<times> store"

definition uuid_in :: "string \<Rightarrow> uuid" where
  "uuid_in spelling = map toLowerCase_char spelling"

definition printed :: "string \<Rightarrow> bool" where
  "printed spelling \<longleftrightarrow> uuid_in spelling = spelling"

definition same_pair :: "uuid \<Rightarrow> uuid \<Rightarrow> dm_conversation \<Rightarrow> bool" where
  "same_pair id1 id2 c \<longleftrightarrow> agent1Id c = id1 \<and> agent2Id c = id2"

definition agent_exists :: "store \<Rightarrow> uuid \<Rightarrow> bool" where
  "agent_exists s agentId \<longleftrightarrow> find (\<lambda>a. a_id a = agentId) (agents s) \<noteq> None"

text \<open>
  \<open>getOrCreateConversation\<close>: the two strings are put smaller first, as JavaScript
  orders them; the row is looked up, and inserted if there is none, by the values of the
  two. \<open>None\<close> is the exception of a refused insert. \<open>newId\<close> is the identifier the
  database generates for the row if one is inserted, \<open>now\<close> the time it gives to
  \<open>updated_at\<close>.
\<close>

definition getOrCreateConversation ::
  "store \<Rightarrow> uuid \<Rightarrow> timestamp \<Rightarrow> string \<Rightarrow> string \<Rightarrow> (dm_conversation \<times> store) option" where
  "getOrCreateConversation s newId now a1 a2 =
     (let (id1, id2) = (if a1 < a2 then (a1, a2) else (a2, a1)) in
      case find (same_pair (uuid_in id1) (uuid_in id2)) (dmConversations s) of
        Some existing \<Rightarrow> Some (existing, s)
      | None \<Rightarrow>
          if newId \<in> set (map c_id (dmConversations s))
             \<or> \<not> agent_exists s (uuid_in id1) \<or> \<not> agent_exists s (uuid_in id2)
          then None
          else
            (let newConv = \<lparr>c_id = newId, agent1Id = uuid_in id1, agent2Id = uuid_in id2,
                            disappearTimer = None, disappearTimerSetBy = None,
                            disappearTimerPendingApproval = False,
                            disappearTimerProposedValue = None,
                            disappearTimerProposedBy = None,
                            agent1ClearedAt = None, agent2ClearedAt = None,
                            c_updatedAt = now\<rparr>
             in Some (newConv,
                  s\<lparr>dmConversations := dmConversations s @ [newConv],
                    log := log s @ [DbInsert DmConversations]\<rparr>)))"

definition isBlocked :: "store \<Rightarrow> string \<Rightarrow> string \<Rightarrow> bool" where
  "isBlocked s blocker blocked \<longleftrightarrow>
     find (\<lambda>b. blockerId b = uuid_in blocker \<and> blockedId b = uuid_in blocked)
       (agentBlocks s) \<noteq> None"

text \<open>
  \<open>const { limit = 50 } = req.query\<close> and \<open>.limit(Number(limit))\<close>: the limit of the
  query string is a natural number, or absent.
\<close>

definition query_limit :: "nat option \<Rightarrow> nat" where
  "query_limit limit = (case limit of None \<Rightarrow> 50 | Some n \<Rightarrow> n)"

text \<open>\<open>ORDER BY created_at DESC\<close>, with rows of equal time in a fixed order.\<close>

definition order_by_desc :: "('a \<Rightarrow> timestamp) \<Rightarrow> 'a list \<Rightarrow> 'a list" where
  "order_by_desc createdAt rows = rev (sort_key createdAt rows)"

definition in_thread :: "uuid \<Rightarrow> uuid \<Rightarrow> direct_message \<Rightarrow> bool" where
  "in_thread me target m \<longleftrightarrow>
     (dm_fromAgentId m = me \<and> dm_toAgentId m = target) \<or>
     (dm_fromAgentId m = target \<and> dm_toAgentId m = me)"

text \<open>The filter of the thread listing: cleared for the reader, or expired.\<close>

definition visible :: "timestamp option \<Rightarrow> timestamp \<Rightarrow> direct_message \<Rightarrow> bool" where
  "visible myClearedAt now msg =
     (if (case myClearedAt of None \<Rightarrow> False | Some cleared \<Rightarrow> dm_createdAt msg < cleared)
        then False
      else if (case dm_expiresAt msg of None \<Rightarrow> False | Some expires \<Rightarrow> expires < now)
        then False
      else True)"

record dm_view =
  v_message :: direct_message
  v_reactions :: "(string \<times> uuid) list"
  v_replyTo :: "(uuid \<times> string \<times> uuid) option"

definition enrich_dm :: "store \<Rightarrow> direct_message \<Rightarrow> dm_view" where
  "enrich_dm s msg =
     \<lparr>v_message = msg,
      v_reactions = map (\<lambda>r. (r_emoji r, r_agentId r))
                      (filter (\<lambda>r. r_messageId r = dm_id msg) (dmReactions s)),
      v_replyTo =
        (case dm_replyToId msg of
           None \<Rightarrow> None
         | Some replyToId \<Rightarrow>
             map_option (\<lambda>m. (dm_id m, dm_content m, dm_fromAgentId m))
               (find (\<lambda>m. dm_id m = replyToId) (directMessages s)))\<rparr>"

text \<open>
  The side of the reader in the row of the conversation: \<open>amAgent1 ? conv.agent1ClearedAt :
  conv.agent2ClearedAt\<close>, with \<open>amAgent1 = myAgentId < targetAgentId\<close> on the strings.
\<close>

definition my_cleared_at :: "dm_conversation \<Rightarrow> string \<Rightarrow> string \<Rightarrow> timestamp option" where
  "my_cleared_at conv myAgentId targetAgentId =
     (let amAgent1 = myAgentId < targetAgentId
      in if amAgent1 then agent1ClearedAt conv else agent2ClearedAt conv)"

text \<open>
  The messages the thread listing answers with: the query (both directions, newest
  first, at most \<open>n\<close>), the filter, the enrichment, and the reversal into
  chronological order.
\<close>

definition thread_view ::
  "store \<Rightarrow> timestamp option \<Rightarrow> timestamp \<Rightarrow> string \<Rightarrow> string \<Rightarrow> nat \<Rightarrow> dm_view list" where
  "thread_view s myClearedAt now myAgentId targetAgentId n =
     (let conversation =
            take n (order_by_desc dm_createdAt
                      (filter (in_thread (uuid_in myAgentId) (uuid_in targetAgentId))
                         (directMessages s)));
          shown = filter (visible myClearedAt now) conversation;
          enrichedMessages = map (enrich_dm s) shown
      in rev enrichedMessages)"

text \<open>
  GET /:agentId. After the read, the messages received from the other agent are marked
  read.
\<close>

definition get_dms ::
  "store \<Rightarrow> uuid \<Rightarrow> timestamp \<Rightarrow> string \<Rightarrow> string \<Rightarrow> nat option \<Rightarrow> dm_view list response" where
  "get_dms s newId now myAgentId targetAgentId limit =
     (case getOrCreateConversation s newId now myAgentId targetAgentId of
        None \<Rightarrow> (Inl (HttpError 500 ''Failed to get direct messages''), s)
      | Some (conv, s1) \<Rightarrow>
          (let myClearedAt = my_cleared_at conv myAgentId targetAgentId;
               messages = thread_view s1 myClearedAt now myAgentId targetAgentId
                            (query_limit limit);
               s2 = s1\<lparr>directMessages :=
                          map (\<lambda>m. if dm_fromAgentId m = uuid_in targetAgentId
                                        \<and> dm_toAgentId m = uuid_in myAgentId \<and> \<not> dm_read m
                                     then m\<lparr>dm_read := True\<rparr> else m)
                            (directMessages s1),
                        log := log s1 @ [DbUpdate DirectMessages]\<rparr>
           in (Inr messages, s2)))"

text \<open>
  \<open>String.prototype.trim\<close> removes from both ends the code points of WhiteSpace and of
  LineTerminator: U+0009 to U+000D, U+0020, U+00A0, U+1680, U+2000 to U+200A, U+2028,
  U+2029, U+202F, U+205F, U+3000 and U+FEFF. A text is the list of its bytes in UTF-8, in
  which these code points are the byte sequences \<open>white_space_codes\<close>.
\<close>

definition white_space_codes :: "string list" where
  "white_space_codes =
     [[CHR 0x09], [CHR 0x0A], [CHR 0x0B], [CHR 0x0C], [CHR 0x0D], [CHR 0x20],
      [CHR 0xC2, CHR 0xA0],
      [CHR 0xE1, CHR 0x9A, CHR 0x80],
      [CHR 0xE2, CHR 0x80, CHR 0x80], [CHR 0xE2, CHR 0x80, CHR 0x81],
      [CHR 0xE2, CHR 0x80, CHR 0x82], [CHR 0xE2, CHR 0x80, CHR 0x83],
      [CHR 0xE2, CHR 0x80, CHR 0x84], [CHR 0xE2, CHR 0x80, CHR 0x85],
      [CHR 0xE2, CHR 0x80, CHR 0x86], [CHR 0xE2, CHR 0x80, CHR 0x87],
      [CHR 0xE2, CHR 0x80, CHR 0x88], [CHR 0xE2, CHR 0x80, CHR 0x89],
      [CHR 0xE2, CHR 0x80, CHR 0x8A],
      [CHR 0xE2, CHR 0x80, CHR 0xA8], [CHR 0xE2, CHR 0x80, CHR 0xA9],
      [CHR 0xE2, CHR 0x80, CHR 0xAF],
      [CHR 0xE2, CHR 0x81, CHR 0x9F],
      [CHR 0xE3, CHR 0x80, CHR 0x80],
      [CHR 0xEF, CHR 0xBB, CHR 0xBF]]"

text \<open>The code at the start of a text, if it starts with one.\<close>

definition leading_code :: "string list \<Rightarrow> string \<Rightarrow> string option" where
  "leading_code codes cs = find (\<lambda>w. w \<noteq> [] \<and> take (length w) cs = w) codes"

function strip_codes :: "string list \<Rightarrow> string \<Rightarrow> string" where
  "strip_codes codes cs =
     (case leading_code codes cs of
        None \<Rightarrow> cs
      | Some w \<Rightarrow> strip_codes codes (drop (length w) cs))"
  by pat_completeness auto

termination
proof (relation "measure (\<lambda>(codes, cs). length cs)")
  show "wf (measure (\<lambda>(codes, cs). length cs))"
    by simp
next
  fix codes :: "string list" and cs w :: string
  assume "leading_code codes cs = Some w"
  then have "w \<noteq> []" and "take (length w) cs = w"
    by (auto simp add: leading_code_def find_Some_iff)
  then have "cs \<noteq> []"
    by auto
  with \<open>w \<noteq> []\<close> show "((codes, drop (length w) cs), (codes, cs))
                           \<in> measure (\<lambda>(codes, cs). length cs)"
    by simp
qed

declare strip_codes.simps [simp del]

definition trim :: "string \<Rightarrow> string" where
  "trim cs =
     rev (strip_codes (map rev white_space_codes) (rev (strip_codes white_space_codes cs)))"

text \<open>
  PostgreSQL refuses a text that contains the code point U+0000: the insert of such a
  content throws.
\<close>

definition has_nul :: "string \<Rightarrow> bool" where
  "has_nul cs \<longleftrightarrow> CHR 0x00 \<in> set cs"

text \<open>A value of the request body that JavaScript takes for true: neither absent nor empty.\<close>

definition truthy :: "string option \<Rightarrow> bool" where
  "truthy v \<longleftrightarrow> (case v of None \<Rightarrow> False | Some x \<Rightarrow> x \<noteq> [])"

text \<open>
  The validation of \<open>replyToId\<close> by the send handler: the error it answers, if any. The
  message is looked up by the database; its two agents are compared with the strings of
  the request by JavaScript.
\<close>

definition reply_error ::
  "store \<Rightarrow> string \<Rightarrow> string \<Rightarrow> string option \<Rightarrow> http_error option" where
  "reply_error s myAgentId targetAgentId replyToId =
     (case replyToId of
        None \<Rightarrow> None
      | Some r \<Rightarrow>
          if r = [] then None
          else (case find (\<lambda>m. dm_id m = uuid_in r) (directMessages s) of
                  None \<Rightarrow> Some (HttpError 404 ''Reply message not found'')
                | Some replyMsg \<Rightarrow>
                    if \<not> in_thread myAgentId targetAgentId replyMsg
                    then Some (HttpError 400
                                 ''Can only reply to messages in this conversation'')
                    else None))"

text \<open>
  POST /:agentId. \<open>newConvId\<close> and \<open>newDmId\<close> are the identifiers the database
  generates for the conversation (if it is created) and for the message. The handler
  reads two clocks: \<open>now\<close> is \<open>Date.now()\<close>, from which it computes \<open>expiresAt\<close>;
  \<open>dbNow\<close> is the \<open>NOW()\<close> of the database, the default of \<open>created_at\<close> in the
  rows it inserts.
\<close>

definition post_dm ::
  "store \<Rightarrow> uuid \<Rightarrow> uuid \<Rightarrow> timestamp \<Rightarrow> timestamp \<Rightarrow> string \<Rightarrow> string \<Rightarrow> string
     \<Rightarrow> string option \<Rightarrow> direct_message response" where
  "post_dm s newConvId newDmId now dbNow myAgentId targetAgentId content replyToId =
     (if trim content = [] then (Inl (HttpError 400 ''Message content is required''), s)
      else if \<not> agent_exists s (uuid_in targetAgentId)
        then (Inl (HttpError 404 ''Agent not found''), s)
      else if targetAgentId = myAgentId
        then (Inl (HttpError 400 ''Cannot send DM to yourself''), s)
      else if isBlocked s targetAgentId myAgentId
        then (Inl (HttpError 403 ''You cannot message this agent''), s)
      else
        (case getOrCreateConversation s newConvId dbNow myAgentId targetAgentId of
           None \<Rightarrow> (Inl (HttpError 500 ''Failed to send direct message''), s)
         | Some (conv, s1) \<Rightarrow>
             (let expiresAt =
                    (case disappearTimer conv of
                       None \<Rightarrow> None
                     | Some timer \<Rightarrow>
                         if timer \<noteq> 0 \<and> \<not> disappearTimerPendingApproval conv
                         then Some (now + timer * 1000) else None)
              in case reply_error s1 myAgentId targetAgentId replyToId of
                   Some e \<Rightarrow> (Inl e, s1)
                 | None \<Rightarrow>
                     if newDmId \<in> set (map dm_id (directMessages s1))
                        \<or> has_nul (trim content)
                       then (Inl (HttpError 500 ''Failed to send direct message''), s1)
                     else
                       (let newDm = \<lparr>dm_id = newDmId, dm_fromAgentId = uuid_in myAgentId,
                                      dm_toAgentId = uuid_in targetAgentId,
                                      dm_content = trim content,
                                      dm_replyToId =
                                        (if truthy replyToId then map_option uuid_in replyToId
                                         else None),
                                      dm_read = False, dm_expiresAt = expiresAt,
                                      dm_createdAt = dbNow\<rparr>
                        in (Inr newDm,
                            s1\<lparr>directMessages := directMessages s1 @ [newDm],
                               log := log s1 @ [DbInsert DirectMessages,
                                      Emit (AgentRoom targetAgentId) (DmNew newDm)]\<rparr>)))))"

text \<open>POST /block/:agentId and DELETE /block/:agentId.\<close>

definition post_block :: "store \<Rightarrow> string \<Rightarrow> string \<Rightarrow> unit response" where
  "post_block s myAgentId targetAgentId =
     (if targetAgentId = myAgentId then (Inl (HttpError 400 ''Cannot block yourself''), s)
      else if \<not> agent_exists s (uuid_in targetAgentId)
        then (Inl (HttpError 404 ''Agent not found''), s)
      else if isBlocked s myAgentId targetAgentId
        then (Inl (HttpError 400 ''Agent is already blocked''), s)
      else (Inr (),
            s\<lparr>agentBlocks := agentBlocks s @
                    [\<lparr>blockerId = uuid_in myAgentId, blockedId = uuid_in targetAgentId\<rparr>],
              log := log s @ [DbInsert AgentBlocks,
                              Emit (AgentRoom targetAgentId) (DmBlocked myAgentId)]\<rparr>))"

definition delete_block :: "store \<Rightarrow> string \<Rightarrow> string \<Rightarrow> unit response" where
  "delete_block s myAgentId targetAgentId =
     (Inr (),
      s\<lparr>agentBlocks :=
          filter (\<lambda>b. \<not> (blockerId b = uuid_in myAgentId
                           \<and> blockedId b = uuid_in targetAgentId))
            (agentBlocks s),
        log := log s @ [DbDelete AgentBlocks]\<rparr>)"

text \<open>
  The reactions: \<open>ALLOWED_REACTIONS\<close>, from the name to the emoji (in UTF-8). A name that
  is a property the object inherits is not modelled.
\<close>

definition thumbs_up :: string where
  "thumbs_up = [CHR 0xF0, CHR 0x9F, CHR 0x91, CHR 0x8D]"

definition red_heart :: string where
  "red_heart = [CHR 0xE2, CHR 0x9D, CHR 0xA4, CHR 0xEF, CHR 0xB8, CHR 0x8F]"

definition angry_face :: string where
  "angry_face = [CHR 0xF0, CHR 0x9F, CHR 0x98, CHR 0xA0]"

definition crying_face :: string where
  "crying_face = [CHR 0xF0, CHR 0x9F, CHR 0x98, CHR 0xA2]"

definition ALLOWED_REACTIONS :: "string \<Rightarrow> string option" where
  "ALLOWED_REACTIONS type =
     (if type = ''like'' then Some thumbs_up
      else if type = ''love'' then Some red_heart
      else if type = ''angry'' then Some angry_face
      else if type = ''sad'' then Some crying_face
      else None)"

text \<open>POST /:messageId/reactions.\<close>

definition post_dm_reaction :: "store \<Rightarrow> string \<Rightarrow> string \<Rightarrow> string \<Rightarrow> unit response" where
  "post_dm_reaction s myAgentId messageId type =
     (case ALLOWED_REACTIONS type of
        None \<Rightarrow>
          (Inl (HttpError 400 ''Invalid reaction type. Allowed: like, love, angry, sad''), s)
      | Some emoji \<Rightarrow>
          (case find (\<lambda>m. dm_id m = uuid_in messageId) (directMessages s) of
             None \<Rightarrow> (Inl (HttpError 404 ''Message not found''), s)
           | Some message \<Rightarrow>
               if dm_fromAgentId message \<noteq> myAgentId \<and> dm_toAgentId message \<noteq> myAgentId
                 then (Inl (HttpError 403
                              ''You can only react to messages in your conversations''), s)
               else if find (\<lambda>r. r_messageId r = uuid_in messageId
                                    \<and> r_agentId r = uuid_in myAgentId
                                    \<and> r_emoji r = emoji) (dmReactions s) \<noteq> None
                 then (Inl (HttpError 400 ''You already reacted with this emoji''), s)
               else
                 (let recipientId = (if dm_fromAgentId message = myAgentId
                                     then dm_toAgentId message else dm_fromAgentId message)
                  in (Inr (),
                      s\<lparr>dmReactions := dmReactions s @
                              [\<lparr>r_messageId = uuid_in messageId,
                                r_agentId = uuid_in myAgentId, r_emoji = emoji\<rparr>],
                        log := log s @ [DbInsert DmReactions,
                                        Emit (AgentRoom recipientId)
                                          (DmReactionAdded messageId emoji myAgentId)]\<rparr>))))"

text \<open>DELETE /:messageId/reactions/:emoji.\<close>

definition delete_dm_reaction :: "store \<Rightarrow> string \<Rightarrow> string \<Rightarrow> string \<Rightarrow> unit response" where
  "delete_dm_reaction s myAgentId messageId emoji =
     (let s1 = (case find (\<lambda>m. dm_id m = uuid_in messageId) (directMessages s) of
                  None \<Rightarrow> s
                | Some message \<Rightarrow>
                    (let recipientId = (if dm_fromAgentId message = myAgentId
                                        then dm_toAgentId message else dm_fromAgentId message)
                     in s\<lparr>log := log s @ [Emit (AgentRoom recipientId)
                                             (DmReactionRemoved messageId emoji myAgentId)]\<rparr>));
          s2 = s1\<lparr>dmReactions :=
                     filter (\<lambda>r. \<not> (r_messageId r = uuid_in messageId
                                      \<and> r_agentId r = uuid_in myAgentId
                                      \<and> r_emoji r = emoji)) (dmReactions s1),
                   log := log s1 @ [DbDelete DmReactions]\<rparr>
      in (Inr (), s2))"

text \<open>
  The update of one conversation: \<open>WHERE id = conv.id\<close>, on the identifier of the row
  the handler has read.
\<close>

definition update_conversation ::
  "store \<Rightarrow> uuid \<Rightarrow> (dm_conversation \<Rightarrow> dm_conversation) \<Rightarrow> store" where
  "update_conversation s convId f =
     s\<lparr>dmConversations := map (\<lambda>c. if c_id c = convId then f c else c) (dmConversations s),
       log := log s @ [DbUpdate DmConversations]\<rparr>"

text \<open>DELETE /:agentId/clear.\<close>

definition clear_conversation ::
  "store \<Rightarrow> uuid \<Rightarrow> timestamp \<Rightarrow> string \<Rightarrow> string \<Rightarrow> unit response" where
  "clear_conversation s newId now myAgentId targetAgentId =
     (case getOrCreateConversation s newId now myAgentId targetAgentId of
        None \<Rightarrow> (Inl (HttpError 500 ''Failed to clear conversation''), s)
      | Some (conv, s1) \<Rightarrow>
          (let amAgent1 = myAgentId < targetAgentId;
               s2 = update_conversation s1 (c_id conv)
                      (\<lambda>c. if amAgent1 then c\<lparr>agent1ClearedAt := Some now, c_updatedAt := now\<rparr>
                            else c\<lparr>agent2ClearedAt := Some now, c_updatedAt := now\<rparr>)
           in (Inr (), s2\<lparr>log := log s2 @
                              [Emit (AgentRoom targetAgentId) (DmCleared myAgentId)]\<rparr>)))"

text \<open>GET /:agentId/settings.\<close>

record dm_settings =
  st_disappearTimer :: "int option"
  st_disappearTimerEnabled :: bool
  st_pendingProposal :: "(int option \<times> uuid option) option"
  st_isBlocked :: bool
  st_isBlockedBy :: bool

definition get_dm_settings ::
  "store \<Rightarrow> uuid \<Rightarrow> timestamp \<Rightarrow> string \<Rightarrow> string \<Rightarrow> dm_settings response" where
  "get_dm_settings s newId now myAgentId targetAgentId =
     (case getOrCreateConversation s newId now myAgentId targetAgentId of
        None \<Rightarrow> (Inl (HttpError 500 ''Failed to get settings''), s)
      | Some (conv, s1) \<Rightarrow>
          (Inr \<lparr>st_disappearTimer = disappearTimer conv,
                st_disappearTimerEnabled =
                  ((case disappearTimer conv of None \<Rightarrow> False | Some timer \<Rightarrow> timer \<noteq> 0)
                   \<and> \<not> disappearTimerPendingApproval conv),
                st_pendingProposal =
                  (if disappearTimerPendingApproval conv
                      \<and> disappearTimerProposedBy conv \<noteq> Some myAgentId
                   then Some (disappearTimerProposedValue conv, disappearTimerProposedBy conv)
                   else None),
                st_isBlocked = isBlocked s1 myAgentId targetAgentId,
                st_isBlockedBy = isBlocked s1 targetAgentId myAgentId\<rparr>, s1))"

text \<open>
  POST /:agentId/disappear. The timer of the body is a whole number of seconds, or absent.
  The columns \<open>disappear_timer\<close> and \<open>disappear_timer_proposed_value\<close> are of type
  INTEGER (migrate.ts): the update that writes a timer outside the range of 32 bits
  throws, and the handler answers 500 with the row as it was. The response is the
  \<open>status\<close> field of the body.
\<close>

datatype disappear_status = StatusDisabled | StatusEnabled | StatusProposed

definition fits_integer :: "int \<Rightarrow> bool" where
  "fits_integer n \<longleftrightarrow> - 2147483648 \<le> n \<and> n \<le> 2147483647"

definition set_disappear ::
  "store \<Rightarrow> uuid \<Rightarrow> timestamp \<Rightarrow> string \<Rightarrow> string \<Rightarrow> int option
     \<Rightarrow> disappear_status response" where
  "set_disappear s newId now myAgentId targetAgentId timerOpt =
     (case getOrCreateConversation s newId now myAgentId targetAgentId of
        None \<Rightarrow> (Inl (HttpError 500 ''Failed to set disappearing messages''), s)
      | Some (conv, s1) \<Rightarrow>
          (case (if timerOpt = Some 0 then None else timerOpt) of
             None \<Rightarrow>
               (let s2 = update_conversation s1 (c_id conv)
                           (\<lambda>c. c\<lparr>disappearTimer := None, disappearTimerSetBy := None,
                                  disappearTimerPendingApproval := False,
                                  disappearTimerProposedValue := None,
                                  disappearTimerProposedBy := None, c_updatedAt := now\<rparr>)
                in (Inr StatusDisabled,
                    s2\<lparr>log := log s2 @ [Emit (AgentRoom targetAgentId)
                                           (DmDisappearDisabled myAgentId)]\<rparr>))
           | Some timer \<Rightarrow>
               if \<not> fits_integer timer
               then (Inl (HttpError 500 ''Failed to set disappearing messages''), s1)
               else if disappearTimerPendingApproval conv
                  \<and> disappearTimerProposedBy conv \<noteq> Some myAgentId
               then
                 (if disappearTimerProposedValue conv = Some timer
                  then
                    (let s2 = update_conversation s1 (c_id conv)
                                (\<lambda>c. c\<lparr>disappearTimer := Some timer,
                                       disappearTimerSetBy := disappearTimerProposedBy conv,
                                       disappearTimerPendingApproval := False,
                                       disappearTimerProposedValue := None,
                                       disappearTimerProposedBy := None,
                                       c_updatedAt := now\<rparr>)
                     in (Inr StatusEnabled,
                         s2\<lparr>log := log s2 @
                               [Emit (AgentRoom targetAgentId)
                                  (DmDisappearEnabled myAgentId timer),
                                Emit (AgentRoom myAgentId)
                                  (DmDisappearEnabled targetAgentId timer)]\<rparr>))
                  else
                    (let s2 = update_conversation s1 (c_id conv)
                                (\<lambda>c. c\<lparr>disappearTimerProposedValue := Some timer,
                                       disappearTimerProposedBy := Some (uuid_in myAgentId),
                                       c_updatedAt := now\<rparr>)
                     in (Inr StatusProposed,
                         s2\<lparr>log := log s2 @ [Emit (AgentRoom targetAgentId)
                                                (DmDisappearProposed myAgentId timer)]\<rparr>)))
               else
                 (let s2 = update_conversation s1 (c_id conv)
                             (\<lambda>c. c\<lparr>disappearTimerPendingApproval := True,
                                    disappearTimerProposedValue := Some timer,
                                    disappearTimerProposedBy := Some (uuid_in myAgentId),
                                    c_updatedAt := now\<rparr>)
                  in (Inr StatusProposed,
                      s2\<lparr>log := log s2 @ [Emit (AgentRoom targetAgentId)
                                             (DmDisappearProposed myAgentId timer)]\<rparr>))))"

text \<open>
  The state of the disappearing timer of a conversation, as the settings handler and the
  send handler read it from the row: a proposal is pending, or else a timer is set, or
  else nothing.
\<close>

datatype timer_state = Disabled | Proposed "int option" "uuid option" | Active int

definition timer_state_of :: "dm_conversation \<Rightarrow> timer_state" where
  "timer_state_of c =
     (if disappearTimerPendingApproval c
        then Proposed (disappearTimerProposedValue c) (disappearTimerProposedBy c)
      else (case disappearTimer c of
              None \<Rightarrow> Disabled
            | Some timer \<Rightarrow> if timer = 0 then Disabled else Active timer))"

text \<open>
  The row of the conversation that a request of one agent about the other reads, if
  there is one.
\<close>

definition conversation_of :: "store \<Rightarrow> string \<Rightarrow> string \<Rightarrow> dm_conversation option" where
  "conversation_of s a1 a2 =
     (let (id1, id2) = (if a1 < a2 then (a1, a2) else (a2, a1))
      in find (same_pair (uuid_in id1) (uuid_in id2)) (dmConversations s))"

text \<open>What the thread listing reads as the cleared time of a reader, if the row exists.\<close>

definition cleared_at :: "store \<Rightarrow> string \<Rightarrow> string \<Rightarrow> timestamp option" where
  "cleared_at s myAgentId targetAgentId =
     (case conversation_of s myAgentId targetAgentId of
        None \<Rightarrow> None
      | Some conv \<Rightarrow> my_cleared_at conv myAgentId targetAgentId)"

text \<open>The socket emissions of a log, in order.\<close>

fun emissions :: "effect list \<Rightarrow> (room \<times> event) list" where
  "emissions [] = []"
| "emissions (Emit r e # effs) = (r, e) # emissions effs"
| "emissions (eff # effs) = emissions effs"

subsection \<open>Group messages (packages/api/src/routes/messages.ts)\<close>

record message_view =
  mv_message :: message
  mv_reactions :: "(string \<times> uuid) list"
  mv_replyTo :: "(uuid \<times> string \<times> uuid) option"

definition enrich_message :: "store \<Rightarrow> message \<Rightarrow> message_view" where
  "enrich_message s msg =
     \<lparr>mv_message = msg,
      mv_reactions = map (\<lambda>r. (mr_emoji r, mr_agentId r))
                       (filter (\<lambda>r. mr_messageId r = m_id msg) (messageReactions s)),
      mv_replyTo =
        (case m_replyToId msg of
           None \<Rightarrow> None
         | Some replyToId \<Rightarrow>
             map_option (\<lambda>m. (m_id m, m_content m, m_agentId m))
               (find (\<lambda>m. m_id m = replyToId) (messages s)))\<rparr>"

text \<open>
  The query of both listings: the messages of the group, joined with their authors,
  newest first, at most \<open>n\<close> of them.
\<close>

definition newest_messages :: "store \<Rightarrow> uuid \<Rightarrow> nat \<Rightarrow> message list" where
  "newest_messages s groupId n =
     take n (order_by_desc m_createdAt
       (filter (\<lambda>m. m_groupId m = groupId \<and> agent_exists s (m_agentId m)) (messages s)))"

text \<open>
  GET /:groupId. The handler passes \<open>Number(limit)\<close> to the query as it is.
\<close>

definition get_messages ::
  "store \<Rightarrow> uuid \<Rightarrow> uuid \<Rightarrow> nat option \<Rightarrow> http_error + message_view list" where
  "get_messages s agentId groupId limit =
     (if find (is_membership groupId agentId) (groupMembers s) = None
        then Inl (HttpError 403 ''You must join this group to view messages'')
      else
        (let groupMessages =
               newest_messages s groupId (query_limit limit);
             enrichedMessages = map (enrich_message s) groupMessages
         in Inr (rev enrichedMessages)))"

text \<open>
  POST /:groupId. \<open>newId\<close> is the identifier the database generates for the message.
\<close>

definition post_message ::
  "store \<Rightarrow> uuid \<Rightarrow> timestamp \<Rightarrow> uuid \<Rightarrow> uuid \<Rightarrow> string \<Rightarrow> uuid option \<Rightarrow> message response" where
  "post_message s newId now agentId groupId content replyToId =
     (if trim content = [] then (Inl (HttpError 400 ''Message content is required''), s)
      else if find (is_membership groupId agentId) (groupMembers s) = None
        then (Inl (HttpError 403 ''You must join this group to send messages''), s)
      else if newId \<in> set (map m_id (messages s)) \<or> has_nul (trim content)
        then (Inl (HttpError 500 ''Failed to send message''), s)
      else
        (let newMessage = \<lparr>m_id = newId, m_groupId = groupId, m_agentId = agentId,
                            m_content = trim content,
                            m_replyToId = (if truthy replyToId then replyToId else None),
                            m_createdAt = now\<rparr>
         in (Inr newMessage,
             s\<lparr>messages := messages s @ [newMessage],
               log := log s @ [DbInsert Messages,
                               Emit (GroupRoom groupId) (MessageNew newMessage)]\<rparr>)))"

text \<open>
  A message whose \<open>replyToId\<close> is set replies to a message of its own group.
\<close>

definition reply_in_group :: "store \<Rightarrow> message \<Rightarrow> bool" where
  "reply_in_group s msg \<longleftrightarrow>
     (case m_replyToId msg of
        None \<Rightarrow> True
      | Some r \<Rightarrow> list_ex (\<lambda>m. m_id m = r \<and> m_groupId m = m_groupId msg) (messages s))"

subsection \<open>The observer (packages/api/src/routes/observer.ts)\<close>

text \<open>\<open>getAgentBadges\<close>: the badges of an agent that have not expired, by priority.\<close>

definition getAgentBadges :: "store \<Rightarrow> timestamp \<Rightarrow> uuid \<Rightarrow> badge list" where
  "getAgentBadges s now agentId =
     sort_key b_priority
       (concat (map (\<lambda>ab. filter (\<lambda>b. b_slug b = ab_badgeSlug ab) (badges s))
          (filter (\<lambda>ab. ab_agentId ab = agentId \<and>
                        (case ab_expiresAt ab of None \<Rightarrow> True | Some e \<Rightarrow> e > now))
             (agentBadges s))))"

record observer_view =
  ov_message :: message
  ov_badges :: "badge list"
  ov_reactions :: "(string \<times> uuid) list"
  ov_replyTo :: "(uuid \<times> string \<times> string) option"

text \<open>The name of the author of a message, through the join with the agents.\<close>

definition author_name :: "store \<Rightarrow> message \<Rightarrow> string option" where
  "author_name s m = map_option a_name (find (\<lambda>a. a_id a = m_agentId m) (agents s))"

definition preview :: "string \<Rightarrow> string" where
  "preview content = take 100 content @ (if length content > 100 then ''...'' else [])"

text \<open>
  GET /groups/:groupId/messages, without authentication:
  \<open>Math.min(parseInt(req.query.limit) || 50, 100)\<close>, where \<open>None\<close> is a query string
  that \<open>parseInt\<close> does not read as a number. A negative limit is not modelled.
\<close>

definition observer_limit :: "nat option \<Rightarrow> nat" where
  "observer_limit limit =
     min (case limit of None \<Rightarrow> 50 | Some n \<Rightarrow> if n = 0 then 50 else n) 100"

definition observer_get_messages ::
  "store \<Rightarrow> timestamp \<Rightarrow> uuid \<Rightarrow> nat option \<Rightarrow> http_error + observer_view list" where
  "observer_get_messages s now groupId limit =
     (if find (\<lambda>g. g_id g = groupId \<and> g_isPublic g) (groups s) = None
        then Inl (HttpError 404 ''Group not found or is private'')
      else
        (let rawMessages = newest_messages s groupId (observer_limit limit);
             messagesWithBadges =
               map (\<lambda>msg.
                      \<lparr>ov_message = msg,
                       ov_badges = getAgentBadges s now (m_agentId msg),
                       ov_reactions = map (\<lambda>r. (mr_emoji r, mr_agentId r))
                         (filter (\<lambda>r. mr_messageId r = m_id msg) (messageReactions s)),
                       ov_replyTo =
                         (case m_replyToId msg of
                            None \<Rightarrow> None
                          | Some replyToId \<Rightarrow>
                              (case find (\<lambda>m. m_id m = replyToId
                                               \<and> agent_exists s (m_agentId m)) (messages s) of
                                 None \<Rightarrow> None
                               | Some m \<Rightarrow>
                                   map_option (\<lambda>name. (m_id m, preview (m_content m), name))
                                     (author_name s m)))\<rparr>)
                 rawMessages
         in Inr (rev messagesWithBadges)))"

subsection \<open>Registration and claim (the auth router, src/unnamed/part_006)\<close>

text \<open>
  POST /register. The identifier, the API key, the claim token and the verification code
  are generated at random by the handler and the database; they are arguments here.
\<close>

record registration =
  reg_agent :: agent
  reg_apiKey :: string
  reg_claimToken :: string
  reg_verificationCode :: string

definition register_agent ::
  "store \<Rightarrow> uuid \<Rightarrow> string \<Rightarrow> string \<Rightarrow> string \<Rightarrow> string \<Rightarrow> string \<Rightarrow> registration response" where
  "register_agent s newId apiKey claimToken verificationCode name handle =
     (if name = [] \<or> handle = []
        then (Inl (HttpError 400 ''Name and handle are required''), s)
      else if find (\<lambda>a. a_handle a = map toLowerCase_char handle) (agents s) \<noteq> None
        then (Inl (HttpError 409 ''Handle already taken. Please choose another.''), s)
      else if newId \<in> set (map a_id (agents s)) \<or> apiKey \<in> set (map a_apiKey (agents s))
              \<or> Some claimToken \<in> set (map a_claimToken (agents s))
        then (Inl (HttpError 500 ''Failed to register agent''), s)
      else
        (let newAgent = \<lparr>a_id = newId, a_name = name,
                          a_handle = map toLowerCase_char handle, a_apiKey = apiKey,
                          a_claimToken = Some claimToken,
                          a_verificationCode = Some verificationCode,
                          a_claimed = False, a_claimedBy = None,
                          a_claimedByTwitterId = None\<rparr>
         in (Inr \<lparr>reg_agent = newAgent, reg_apiKey = apiKey, reg_claimToken = claimToken,
                   reg_verificationCode = verificationCode\<rparr>,
             s\<lparr>agents := agents s @ [newAgent], log := log s @ [DbInsert Agents]\<rparr>)))"

text \<open>
  What the verification handler learns from outside: whether \<open>TWITTER_BEARER_TOKEN\<close> is
  configured, and then the answer of the tweet search (refused, no tweet, or a tweet)
  and of the user lookup (the identifier, if it answered).
\<close>

datatype tweet_search = SearchRefused | NoTweet | TweetFound

datatype twitter = DevMode | Twitter tweet_search "string option"

fun twitter_error :: "twitter \<Rightarrow> http_error option" where
  "twitter_error DevMode = None"
| "twitter_error (Twitter SearchRefused u) =
     Some (HttpError 502 ''Failed to verify with Twitter'')"
| "twitter_error (Twitter NoTweet u) =
     Some (HttpError 400
       ''Verification tweet not found. Please post the tweet and try again.'')"
| "twitter_error (Twitter TweetFound u) = None"

text \<open>\<open>twitterHandle.replace('@', '')\<close> removes the first \<open>@\<close>.\<close>

fun strip_at :: "string \<Rightarrow> string" where
  "strip_at [] = []"
| "strip_at (c # cs) = (if c = CHR ''@'' then cs else c # strip_at cs)"

text \<open>POST /claim/:token/verify.\<close>

definition verify_claim ::
  "store \<Rightarrow> twitter \<Rightarrow> string \<Rightarrow> string \<Rightarrow> unit response" where
  "verify_claim s env token twitterHandle =
     (if twitterHandle = [] then (Inl (HttpError 400 ''Twitter handle is required''), s)
      else
        (case find (\<lambda>a. a_claimToken a = Some token) (agents s) of
           None \<Rightarrow> (Inl (HttpError 404 ''Invalid claim token''), s)
         | Some agent \<Rightarrow>
             if a_claimed agent then (Inl (HttpError 400 ''Agent already claimed''), s)
             else
               (case twitter_error env of
                  Some e \<Rightarrow> (Inl e, s)
                | None \<Rightarrow>
               (let twitterUserId = (case env of DevMode \<Rightarrow> None | Twitter r u \<Rightarrow> u);
                    s1 = s\<lparr>agents :=
                              map (\<lambda>a. if a_id a = a_id agent
                                         then a\<lparr>a_claimed := True,
                                                a_claimedBy := Some (strip_at twitterHandle),
                                                a_claimedByTwitterId := twitterUserId,
                                                a_claimToken := None,
                                                a_verificationCode := None\<rparr>
                                         else a) (agents s),
                            log := log s @ [DbUpdate Agents]\<rparr>;
                    s2 = (if find (\<lambda>ab. ab_agentId ab = a_id agent
                                          \<and> ab_badgeSlug ab = ''verified'') (agentBadges s1)
                             \<noteq> None
                          then s1
                          else s1\<lparr>agentBadges := agentBadges s1 @
                                    [\<lparr>ab_agentId = a_id agent, ab_badgeSlug = ''verified'',
                                      ab_awardedBy = ''system'', ab_expiresAt = None\<rparr>],
                                  log := log s1 @ [DbInsert AgentBadges]\<rparr>)
                in (Inr (), s2)))))"

subsection \<open>Example stores\<close>

text \<open>Two registered agents, \<open>a\<close> and \<open>b\<close>.\<close>

definition two_agents :: store where
  "two_agents =
     snd (register_agent
       (snd (register_agent empty_store ''a'' ''clk_a'' ''token-a'' ''reef-X4B2'' ''Ava'' ''ava''))
       ''b'' ''clk_b'' ''token-b'' ''wave-K7Q2'' ''Bo'' ''bo'')"

text \<open>A third agent, \<open>c\<close>.\<close>

definition three_agents :: store where
  "three_agents =
     snd (register_agent two_agents ''c'' ''clk_c'' ''token-c'' ''moon-P3R8'' ''Cy'' ''cy'')"

text \<open>
  A group of agent \<open>a\<close> in which \<open>a\<close> has sent 101 messages, one millisecond apart;
  \<open>nth_message\<close> is the row of each.
\<close>

definition nth_message :: "nat \<Rightarrow> message" where
  "nth_message i =
     \<lparr>m_id = replicate (Suc i) CHR ''m'', m_groupId = ''g1'', m_agentId = ''a'',
      m_content = ''hi'', m_replyToId = None, m_createdAt = int i\<rparr>"

definition send_nth :: "nat \<Rightarrow> store \<Rightarrow> store" where
  "send_nth i s =
     snd (post_message s (replicate (Suc i) CHR ''m'') (int i) ''a'' ''g1'' ''hi'' None)"

definition busy_group :: store where
  "busy_group =
     fold send_nth [0..<101] (group_run two_agents [Create ''g1'' ''a'' ''Lobby'' None True])"

text \<open>
  Threads of \<open>a\<close> and \<open>b\<close>: \<open>a\<close> has proposed a timer of 3600 seconds; nothing
  is proposed (the row exists); both have agreed on 3600 seconds.
\<close>

definition proposed_by_a :: store where
  "proposed_by_a = snd (set_disappear two_agents ''c1'' 1 ''a'' ''b'' (Some 3600))"

definition quiet_thread :: store where
  "quiet_thread = snd (get_dm_settings two_agents ''c1'' 0 ''a'' ''b'')"

definition active_thread :: store where
  "active_thread = snd (set_disappear proposed_by_a ''c2'' 2 ''b'' ''a'' (Some 3600))"

text \<open>Agent \<open>a\<close> has blocked agent \<open>b\<close>.\<close>

definition a_blocked_b :: store where
  "a_blocked_b = snd (post_block two_agents ''a'' ''b'')"

text \<open>Three direct messages between \<open>a\<close> and \<open>b\<close>, at times 10, 20 and 30.\<close>

definition three_dms :: store where
  "three_dms =
     snd (post_dm (snd (post_dm (snd (post_dm two_agents ''c1'' ''d1'' 10 10 ''a'' ''b'' ''hi'' None))
                          ''c2'' ''d2'' 20 20 ''b'' ''a'' ''yo'' None))
            ''c3'' ''d3'' 30 30 ''a'' ''b'' ''bye'' None)"

text \<open>One direct message from \<open>a\<close> to \<open>b\<close>, to which \<open>b\<close> has reacted.\<close>

definition reacted :: store where
  "reacted =
     snd (post_dm_reaction (snd (post_dm two_agents ''c1'' ''d1'' 10 10 ''a'' ''b'' ''hi'' None))
            ''b'' ''d1'' ''like'')"

text \<open>Two groups, \<open>g1\<close> of \<open>a\<close> and \<open>g2\<close> of \<open>b\<close>, and a message in \<open>g2\<close>.\<close>

definition two_groups :: store where
  "two_groups =
     snd (post_message
       (group_run two_agents
          [Create ''g1'' ''a'' ''Lobby'' None True, Create ''g2'' ''b'' ''Den'' None True])
       ''m2'' 1 ''b'' ''g2'' ''hello'' None)"


section \<open>Properties\<close>

subsection \<open>Groups keep their admins, except through leave\<close>

lemma has_admin_iff:
  "has_admin s g \<longleftrightarrow> (\<exists>gm \<in> set (groupMembers s). gm_groupId gm = g \<and> gm_role gm = Admin)"
  by (simp add: has_admin_def list_ex_iff)

lemma find_membership:
  assumes "find (is_membership g a) ms = Some m"
  shows "m \<in> set ms" and "is_membership g a m"
  using assms by (auto simp: find_Some_iff)

lemma unique_membership:
  assumes "distinct (map member_key ms)" and "m \<in> set ms" and "m' \<in> set ms"
    and "is_membership g a m" and "is_membership g a m'"
  shows "m = m'"
proof -
  from assms(1) have "inj_on member_key (set ms)" by (simp add: distinct_map)
  moreover from assms(4,5) have "member_key m = member_key m'"
    by (simp add: member_key_def is_membership_def)
  ultimately show ?thesis using assms(2,3) by (auto dest: inj_onD)
qed

lemma role_above_not_admin: "role_above r t \<Longrightarrow> t \<noteq> Admin"
proof (cases r)
  case None
  then show "role_above r t \<Longrightarrow> t \<noteq> Admin" by (simp add: role_above_def)
next
  case (Some a)
  then show "role_above r t \<Longrightarrow> t \<noteq> Admin"
    by (cases a; cases t) (simp_all add: role_above_def canModifyRole_def)
qed

lemma create_group_keeps:
  assumes "members_constraints s" "every_group_has_admin s"
    and "create_group s newId a name d p = Inr (g, s')"
  shows "members_constraints s' \<and> every_group_has_admin s'"
  using assms
  by (auto simp: create_group_def Let_def members_constraints_def every_group_has_admin_def
      has_admin_iff list_all_iff member_key_def split: if_splits)

lemma join_group_keeps:
  assumes c: "members_constraints s" and i: "every_group_has_admin s"
    and j: "join_group s g a = Inr s'"
  shows "members_constraints s' \<and> every_group_has_admin s'"
proof -
  from j have grp: "find (\<lambda>x. g_id x = g) (groups s) \<noteq> None"
    and new: "find (is_membership g a) (groupMembers s) = None"
    and s': "s' = s\<lparr>groupMembers := groupMembers s @
                       [\<lparr>gm_groupId = g, gm_agentId = a, gm_role = Member\<rparr>],
                     log := log s @ [DbInsert GroupMembers,
                                     Emit (GroupRoom g) (MemberJoined g a)]\<rparr>"
    by (auto simp: join_group_def split: if_splits)
  from new have "(g, a) \<notin> set (map member_key (groupMembers s))"
    by (auto simp: find_None_iff is_membership_def member_key_def)
  moreover from grp have "g \<in> set (map g_id (groups s))"
    by (auto simp: find_None_iff)
  ultimately have "members_constraints s'"
    using c by (simp add: members_constraints_def s' member_key_def)
  moreover have "every_group_has_admin s'"
    using i by (auto simp: every_group_has_admin_def list_all_iff has_admin_iff s')
  ultimately show ?thesis ..
qed

text \<open>Deleting rows none of which is an admin row keeps the constraints and the admins.\<close>

lemma delete_non_admins_keeps:
  assumes c: "members_constraints s" and i: "every_group_has_admin s"
    and na: "\<forall>gm \<in> set (groupMembers s). P gm \<longrightarrow> gm_role gm \<noteq> Admin"
    and s': "groupMembers s' = filter (\<lambda>gm. \<not> P gm) (groupMembers s)" "groups s' = groups s"
  shows "members_constraints s' \<and> every_group_has_admin s'"
proof
  show "members_constraints s'"
    using c by (auto simp: members_constraints_def s' distinct_map_filter list_all_iff)
  show "every_group_has_admin s'"
    unfolding every_group_has_admin_def list_all_iff has_admin_iff
  proof
    fix g assume "g \<in> set (groups s')"
    then have "g \<in> set (groups s)" by (simp add: s')
    with i obtain gm where gm: "gm \<in> set (groupMembers s)" "gm_groupId gm = g_id g"
      "gm_role gm = Admin"
      by (auto simp: every_group_has_admin_def list_all_iff has_admin_iff)
    with na have "\<not> P gm" by auto
    with gm show "\<exists>gm \<in> set (groupMembers s'). gm_groupId gm = g_id g \<and> gm_role gm = Admin"
      by (auto simp: s')
  qed
qed

lemma leave_group_keeps:
  assumes "members_constraints s" "every_group_has_admin s"
    and "\<not> leave_by_admin s (Leave g a)"
    and "leave_group s g a = Inr s'"
  shows "members_constraints s' \<and> every_group_has_admin s'"
proof (rule delete_non_admins_keeps [OF assms(1,2), where P = "is_membership g a"])
  show "\<forall>gm\<in>set (groupMembers s). is_membership g a gm \<longrightarrow> gm_role gm \<noteq> Admin"
    using assms(3) by (auto simp: list_ex_iff)
  show "groupMembers s' = filter (\<lambda>gm. \<not> is_membership g a gm) (groupMembers s)"
    and "groups s' = groups s"
    using assms(4) by (auto simp: leave_group_def split: if_splits)
qed

lemma target_rows_not_admin:
  assumes c: "members_constraints s"
    and t: "getMemberRole s g t = Some targetRole" and r: "role_above actor targetRole"
  shows "\<forall>gm \<in> set (groupMembers s). is_membership g t gm \<longrightarrow> gm_role gm \<noteq> Admin"
proof (intro ballI impI)
  fix gm assume gm: "gm \<in> set (groupMembers s)" "is_membership g t gm"
  from t obtain m where m: "find (is_membership g t) (groupMembers s) = Some m"
    "gm_role m = targetRole"
    by (auto simp: getMemberRole_def)
  from c have "distinct (map member_key (groupMembers s))"
    by (simp add: members_constraints_def)
  then have "gm = m"
    using gm find_membership [OF m(1)] by (blast intro: unique_membership)
  with m(2) role_above_not_admin [OF r] show "gm_role gm \<noteq> Admin" by simp
qed

lemma remove_member_keeps:
  assumes c: "members_constraints s" and i: "every_group_has_admin s"
    and r: "remove_member s g a t = Inr s'"
  shows "members_constraints s' \<and> every_group_has_admin s'"
proof -
  from r obtain targetRole where tr: "getMemberRole s g t = Some targetRole"
    and ra: "role_above (userRole (checkGroupPermission s g a RemoveMembers)) targetRole"
    and s': "s' = s\<lparr>groupMembers := filter (\<lambda>gm. \<not> is_membership g t gm) (groupMembers s),
                     log := log s @ [DbDelete GroupMembers,
                               Emit (GroupRoom g) (MemberRemoved g t)]\<rparr>"
    by (auto simp: remove_member_def Let_def split: if_splits option.splits)
  show ?thesis
    by (rule delete_non_admins_keeps [OF c i target_rows_not_admin [OF c tr ra]])
       (simp_all add: s')
qed

lemma change_role_keeps:
  assumes c: "members_constraints s" and i: "every_group_has_admin s"
    and r: "change_role s g a t newRoleOpt = Inr s'"
  shows "members_constraints s' \<and> every_group_has_admin s'"
proof -
  from r obtain newRole targetRole where tr: "getMemberRole s g t = Some targetRole"
    and ra: "role_above (userRole (checkGroupPermission s g a SetRoles)) targetRole"
    and s': "s' = s\<lparr>groupMembers :=
                       map (\<lambda>gm. if is_membership g t gm then gm\<lparr>gm_role := newRole\<rparr> else gm)
                         (groupMembers s),
                     log := log s @ [DbUpdate GroupMembers,
                       Emit (GroupRoom g) (MemberRoleChanged g t targetRole newRole)]\<rparr>"
    by (auto simp: change_role_def Let_def split: if_splits option.splits)
  define f where "f = (\<lambda>gm. if is_membership g t gm then gm\<lparr>gm_role := newRole\<rparr> else gm)"
  from s' have ms: "groupMembers s' = map f (groupMembers s)" and gs: "groups s' = groups s"
    by (simp_all add: f_def)
  note na = target_rows_not_admin [OF c tr ra]
  have key: "map member_key (map f (groupMembers s)) = map member_key (groupMembers s)"
    by (simp add: member_key_def f_def)
  have grp: "gm_groupId (f gm) = gm_groupId gm" for gm
    by (simp add: f_def)
  have "members_constraints s'"
    using c unfolding members_constraints_def ms gs key
    by (simp add: list_all_iff grp)
  moreover have "every_group_has_admin s'"
    unfolding every_group_has_admin_def list_all_iff has_admin_iff
  proof
    fix gr assume "gr \<in> set (groups s')"
    then have "gr \<in> set (groups s)" by (simp add: gs)
    with i obtain gm where gm: "gm \<in> set (groupMembers s)" "gm_groupId gm = g_id gr"
      "gm_role gm = Admin"
      by (auto simp: every_group_has_admin_def list_all_iff has_admin_iff)
    with na have "\<not> is_membership g t gm" by auto
    then have "f gm = gm" by (simp add: f_def)
    with gm(1) have "gm \<in> set (groupMembers s')" unfolding ms by (metis image_eqI set_map)
    with gm show "\<exists>gm \<in> set (groupMembers s'). gm_groupId gm = g_id gr \<and> gm_role gm = Admin"
      by auto
  qed
  ultimately show ?thesis ..
qed

lemma group_step_keeps:
  assumes "members_constraints s" "every_group_has_admin s" "\<not> leave_by_admin s op"
    and "group_step s op = Inr s'"
  shows "members_constraints s' \<and> every_group_has_admin s'"
proof (cases op)
  case (Create newId a name d p)
  with assms(4) obtain g where "create_group s newId a name d p = Inr (g, s')"
    by (cases "create_group s newId a name d p") auto
  then show ?thesis by (rule create_group_keeps [OF assms(1,2)])
next
  case (Join g a)
  with assms show ?thesis by (auto dest: join_group_keeps)
next
  case (Leave g a)
  with assms show ?thesis using leave_group_keeps [of s g a s'] by simp
next
  case (RemoveMember g a t)
  with assms show ?thesis by (auto dest: remove_member_keeps)
next
  case (ChangeRole g a t r)
  with assms show ?thesis by (auto dest: change_role_keeps)
qed

text \<open>
  C1 (as amended). From a store that satisfies the constraints of the schema and in which
  every group has an admin, every run of create, join, leave, remove-member and
  change-role requests in which no request is a leave by a member with role admin ends
  in a store in which every group still has a member with role admin: remove-member and
  change-role never remove or demote an admin. The leave handler itself has no guard.
\<close>

theorem admins_kept:
  "members_constraints s \<Longrightarrow> every_group_has_admin s \<Longrightarrow> no_admin_leaves s ops \<Longrightarrow>
   every_group_has_admin (group_run s ops)"
proof (induction ops arbitrary: s)
  case Nil
  then show ?case by simp
next
  case (Cons op ops)
  show ?case
  proof (cases "group_step s op")
    case (Inl e)
    with Cons show ?thesis by simp
  next
    case (Inr s')
    from Cons.prems have "\<not> leave_by_admin s op" by simp
    with Cons.prems Inr have "members_constraints s' \<and> every_group_has_admin s'"
      using group_step_keeps [of s op s'] by simp
    with Cons Inr show ?thesis by simp
  qed
qed


theorem admins_kept_witness:
  "members_constraints three_agents \<and> every_group_has_admin three_agents \<and>
   no_admin_leaves three_agents
     [Create ''g1'' ''a'' ''Lobby'' None True, Join ''g1'' ''b'', Join ''g1'' ''c'',
      ChangeRole ''g1'' ''a'' ''b'' (Some Moderator), RemoveMember ''g1'' ''b'' ''c'',
      Leave ''g1'' ''b''] \<and>
   every_group_has_admin (group_run three_agents
     [Create ''g1'' ''a'' ''Lobby'' None True, Join ''g1'' ''b'', Join ''g1'' ''c'',
      ChangeRole ''g1'' ''a'' ''b'' (Some Moderator), RemoveMember ''g1'' ''b'' ''c'',
      Leave ''g1'' ''b''])"
proof -
  have c: "members_constraints three_agents" by code_simp
  have i: "every_group_has_admin three_agents" by code_simp
  have n: "no_admin_leaves three_agents
     [Create ''g1'' ''a'' ''Lobby'' None True, Join ''g1'' ''b'', Join ''g1'' ''c'',
      ChangeRole ''g1'' ''a'' ''b'' (Some Moderator), RemoveMember ''g1'' ''b'' ''c'',
      Leave ''g1'' ''b'']" by code_simp
  from admins_kept [OF c i n] c i n show ?thesis by blast
qed

text \<open>
  C1 as stated fails: the creator of a group is its only admin, and the leave handler
  deletes the membership of whoever asks. After agent \<open>a\<close> has created a group and left
  it, the group exists and has no admin (no member at all).
\<close>

theorem last_admin_leaves:
  "map g_id (groups (group_run three_agents
      [Create ''g1'' ''a'' ''Lobby'' None True, Leave ''g1'' ''a''])) = [''g1''] \<and>
   \<not> every_group_has_admin (group_run three_agents
      [Create ''g1'' ''a'' ''Lobby'' None True, Leave ''g1'' ''a''])"
  by code_simp

subsection \<open>Conversations and their rows\<close>

lemma printed_uuid_in: "printed x \<Longrightarrow> uuid_in x = x"
  by (simp add: printed_def)

lemma canonical_pair_sym:
  "(if a < b then (a, b) else (b, a)) = (if b < a then (b, a) else (a, b))" for a b :: string
  by auto

lemma conversation_of_sym: "conversation_of s a b = conversation_of s b a"
  unfolding conversation_of_def canonical_pair_sym [of a b] ..

lemma getOrCreateConversation_existing:
  "conversation_of s a b = Some conv \<Longrightarrow> getOrCreateConversation s newId now a b = Some (conv, s)"
  by (auto simp: conversation_of_def getOrCreateConversation_def split: if_splits)

lemma find_map_keeping:
  assumes "\<And>x. P (g x) = P x"
  shows "find P (map g xs) = map_option g (find P xs)"
  by (induction xs) (simp_all add: assms)

lemma conversation_of_update:
  assumes c: "conversation_of s a b = Some conv"
    and f: "\<And>c. agent1Id (f c) = agent1Id c \<and> agent2Id (f c) = agent2Id c"
  shows "conversation_of (update_conversation s (c_id conv) f) a b = Some (f conv)"
proof -
  define g where "g = (\<lambda>c. if c_id c = c_id conv then f c else c)"
  have keep: "same_pair i j (g c) = same_pair i j c" for i j c
    by (simp add: g_def same_pair_def f)
  have "find (same_pair i j) (map g (dmConversations s))
        = map_option g (find (same_pair i j) (dmConversations s))" for i j
    by (rule find_map_keeping) (rule keep)
  moreover have "g conv = f conv" by (simp add: g_def)
  ultimately show ?thesis
    using c by (auto simp: conversation_of_def update_conversation_def g_def split: if_splits)
qed

lemma conversation_of_log [simp]: "conversation_of (s\<lparr>log := l\<rparr>) a b = conversation_of s a b"
  by (simp add: conversation_of_def)

lemma log_update_conversation [simp]:
  "log (update_conversation s cid f) = log s @ [DbUpdate DmConversations]"
  by (simp add: update_conversation_def)

lemma emissions_append [simp]: "emissions (xs @ ys) = emissions xs @ emissions ys"
  by (induction xs rule: emissions.induct) simp_all

lemma find_append_None:
  "find P xs = None \<Longrightarrow> find P (xs @ ys) = find P ys"
  by (induction xs) (simp_all split: if_splits)

lemma getOrCreateConversation_result:
  assumes "getOrCreateConversation s newId now a b = Some (conv, s1)"
  shows "conversation_of s1 a b = Some conv"
    and "directMessages s1 = directMessages s" and "dmReactions s1 = dmReactions s"
    and "agentBlocks s1 = agentBlocks s"
    and "conversation_of s a b = Some conv
         \<or> (conversation_of s a b = None \<and> timer_state_of conv = Disabled
             \<and> agent1ClearedAt conv = None \<and> agent2ClearedAt conv = None)"
  using assms
  by (auto simp: getOrCreateConversation_def conversation_of_def Let_def find_append_None
      same_pair_def timer_state_of_def split: if_splits option.splits)

lemma getOrCreateConversation_fresh:
  assumes "conversation_of s a b = None" and "newId \<notin> set (map c_id (dmConversations s))"
    and "agent_exists s (uuid_in a)" and "agent_exists s (uuid_in b)"
  shows "getOrCreateConversation s newId now a b \<noteq> None"
  using assms
  by (auto simp: getOrCreateConversation_def conversation_of_def Let_def split: if_splits)

subsection \<open>The negotiation of the disappearing timer\<close>

lemma proposed_pending:
  "timer_state_of conv = Proposed v p \<Longrightarrow>
   disappearTimerPendingApproval conv \<and> disappearTimerProposedValue conv = v
   \<and> disappearTimerProposedBy conv = p"
  by (auto simp: timer_state_of_def split: if_splits option.splits)

lemma answer_to_proposal:
  assumes c: "conversation_of s X Y = Some conv"
    and p: "timer_state_of conv = Proposed (Some t') (Some by')"
    and other: "by' \<noteq> X" and t: "t \<noteq> 0" and fits: "fits_integer t"
  shows "fst (set_disappear s newId now X Y (Some t))
           = Inr (if t = t' then StatusEnabled else StatusProposed)"
    and "map_option timer_state_of (conversation_of (snd (set_disappear s newId now X Y (Some t))) X Y)
           = Some (if t = t' then Active t else Proposed (Some t) (Some (uuid_in X)))"
    and "emissions (log (snd (set_disappear s newId now X Y (Some t))))
           = emissions (log s) @
             (if t = t'
              then [(AgentRoom Y, DmDisappearEnabled X t), (AgentRoom X, DmDisappearEnabled Y t)]
              else [(AgentRoom Y, DmDisappearProposed X t)])"
proof -
  note g = getOrCreateConversation_existing [OF c, of newId now]
  note pp = proposed_pending [OF p]
  show "fst (set_disappear s newId now X Y (Some t))
           = Inr (if t = t' then StatusEnabled else StatusProposed)"
    using pp other t fits by (simp add: set_disappear_def g Let_def)
  show "map_option timer_state_of (conversation_of (snd (set_disappear s newId now X Y (Some t))) X Y)
           = Some (if t = t' then Active t else Proposed (Some t) (Some (uuid_in X)))"
    using pp other t fits
    by (simp add: set_disappear_def g Let_def conversation_of_update [OF c] timer_state_of_def)
  show "emissions (log (snd (set_disappear s newId now X Y (Some t))))
           = emissions (log s) @
             (if t = t'
              then [(AgentRoom Y, DmDisappearEnabled X t), (AgentRoom X, DmDisappearEnabled Y t)]
              else [(AgentRoom Y, DmDisappearProposed X t)])"
    using pp other t fits by (simp add: set_disappear_def g Let_def)
qed

lemma first_proposal:
  assumes c: "conversation_of s X Y = Some conv"
    and p: "\<not> disappearTimerPendingApproval conv" and t: "t \<noteq> 0" and fits: "fits_integer t"
  shows "\<exists>conv'. conversation_of (snd (set_disappear s newId now X Y (Some t))) X Y = Some conv'
           \<and> timer_state_of conv' = Proposed (Some t) (Some (uuid_in X))"
  using p t fits
  by (simp add: set_disappear_def getOrCreateConversation_existing [OF c] Let_def
      conversation_of_update [OF c] timer_state_of_def)

lemma matching_proposals:
  assumes c: "conversation_of s A B = Some conv"
    and p: "\<not> disappearTimerPendingApproval conv" and t: "t \<noteq> 0" and fits: "fits_integer t"
    and ab: "uuid_in A \<noteq> B"
  shows "map_option timer_state_of
           (conversation_of
              (snd (set_disappear (snd (set_disappear s n1 now1 A B (Some t))) n2 now2 B A (Some t)))
              A B) = Some (Active t)"
proof -
  from first_proposal [OF c p t fits, of n1 now1] obtain conv' where
    c': "conversation_of (snd (set_disappear s n1 now1 A B (Some t))) B A = Some conv'"
    and p': "timer_state_of conv' = Proposed (Some t) (Some (uuid_in A))"
    by (auto simp: conversation_of_sym [of _ B A])
  from answer_to_proposal(2) [OF c' p' ab t fits, of n2 now2]
  show ?thesis by (simp add: conversation_of_sym [of _ A B])
qed

text \<open>
  A timer that the INTEGER column does not hold is answered 500, and nothing is written
  to a conversation that exists.
\<close>

lemma timer_out_of_range:
  assumes "conversation_of s X Y = Some conv" and "\<not> fits_integer t"
  shows "set_disappear s newId now X Y (Some t)
           = (Inl (HttpError 500 ''Failed to set disappearing messages''), s)"
proof -
  from assms(2) have "t \<noteq> 0" by (auto simp: fits_integer_def)
  with assms(2) show ?thesis
    by (simp add: set_disappear_def getOrCreateConversation_existing [OF assms(1)])
qed

text \<open>
  C2. Let the two agents be named by their identifiers as the database prints them, and
  let the timer be one that the INTEGER column holds. In a conversation in which a
  proposal of \<open>t'\<close> by \<open>by'\<close> is pending, a request of \<open>X \<noteq> by'\<close> to set a timer
  \<open>t \<noteq> 0\<close> is answered \<open>enabled\<close>, leaves the timer active at \<open>t\<close> and emits
  \<open>dm:disappear:enabled\<close> to both agents if \<open>t = t'\<close>, and otherwise is answered
  \<open>proposed\<close>, leaves the proposal of \<open>t\<close> by \<open>X\<close> pending and emits
  \<open>dm:disappear:proposed\<close> to the other agent. So when two agents propose the same
  timer, in either order, from a conversation with no pending proposal, the timer ends
  active at that value.
\<close>

theorem disappear_negotiation:
  "(printed X \<and> printed Y \<and> conversation_of s X Y = Some conv
      \<and> timer_state_of conv = Proposed (Some t') (Some by')
      \<and> by' \<noteq> X \<and> t \<noteq> 0 \<and> fits_integer t \<longrightarrow>
    fst (set_disappear s newId now X Y (Some t))
      = Inr (if t = t' then StatusEnabled else StatusProposed) \<and>
    map_option timer_state_of
        (conversation_of (snd (set_disappear s newId now X Y (Some t))) X Y)
      = Some (if t = t' then Active t else Proposed (Some t) (Some X)) \<and>
    emissions (log (snd (set_disappear s newId now X Y (Some t))))
      = emissions (log s) @
        (if t = t'
         then [(AgentRoom Y, DmDisappearEnabled X t), (AgentRoom X, DmDisappearEnabled Y t)]
         else [(AgentRoom Y, DmDisappearProposed X t)])) \<and>
   (printed A \<and> printed B \<and> conversation_of s0 A B = Some conv0
      \<and> \<not> disappearTimerPendingApproval conv0
      \<and> A \<noteq> B \<and> u \<noteq> 0 \<and> fits_integer u \<longrightarrow>
    map_option timer_state_of
        (conversation_of
           (snd (set_disappear (snd (set_disappear s0 n1 now1 A B (Some u))) n2 now2 B A (Some u)))
           A B) = Some (Active u) \<and>
    map_option timer_state_of
        (conversation_of
           (snd (set_disappear (snd (set_disappear s0 n1 now1 B A (Some u))) n2 now2 A B (Some u)))
           A B) = Some (Active u))"
proof (intro conjI impI)
  assume h: "printed X \<and> printed Y \<and> conversation_of s X Y = Some conv \<and>
    timer_state_of conv = Proposed (Some t') (Some by') \<and> by' \<noteq> X \<and> t \<noteq> 0 \<and> fits_integer t"
  then have c: "conversation_of s X Y = Some conv"
    and p: "timer_state_of conv = Proposed (Some t') (Some by')"
    and o: "by' \<noteq> X" and t: "t \<noteq> 0" and f: "fits_integer t" and x: "uuid_in X = X"
    by (simp_all add: printed_def)
  show "fst (set_disappear s newId now X Y (Some t))
      = Inr (if t = t' then StatusEnabled else StatusProposed)"
    by (rule answer_to_proposal(1) [OF c p o t f])
  show "map_option timer_state_of
        (conversation_of (snd (set_disappear s newId now X Y (Some t))) X Y)
      = Some (if t = t' then Active t else Proposed (Some t) (Some X))"
    using answer_to_proposal(2) [OF c p o t f, of newId now] by (simp only: x)
  show "emissions (log (snd (set_disappear s newId now X Y (Some t))))
      = emissions (log s) @
        (if t = t'
         then [(AgentRoom Y, DmDisappearEnabled X t), (AgentRoom X, DmDisappearEnabled Y t)]
         else [(AgentRoom Y, DmDisappearProposed X t)])"
    by (rule answer_to_proposal(3) [OF c p o t f])
next
  assume h: "printed A \<and> printed B \<and> conversation_of s0 A B = Some conv0
      \<and> \<not> disappearTimerPendingApproval conv0 \<and> A \<noteq> B \<and> u \<noteq> 0 \<and> fits_integer u"
  then have c: "conversation_of s0 A B = Some conv0"
    and p: "\<not> disappearTimerPendingApproval conv0" and u: "u \<noteq> 0" and f: "fits_integer u"
    and ab: "uuid_in A \<noteq> B" and ba: "uuid_in B \<noteq> A"
    by (auto simp: printed_def)
  show "map_option timer_state_of
        (conversation_of
           (snd (set_disappear (snd (set_disappear s0 n1 now1 A B (Some u))) n2 now2 B A (Some u)))
           A B) = Some (Active u)"
    by (rule matching_proposals [OF c p u f ab])
  from c have c': "conversation_of s0 B A = Some conv0"
    by (simp add: conversation_of_sym [of s0 B A])
  from matching_proposals [OF c' p u f ba, of n1 now1 n2 now2]
  show "map_option timer_state_of
        (conversation_of
           (snd (set_disappear (snd (set_disappear s0 n1 now1 B A (Some u))) n2 now2 A B (Some u)))
           A B) = Some (Active u)"
    by (simp add: conversation_of_sym [of _ A B])
qed

text \<open>
  The witness: \<open>b\<close> answers the proposal of 3600 by \<open>a\<close> with 3600; and both orders
  of two proposals of 7200.
\<close>

theorem disappear_negotiation_witness:
  "timer_state_of (the (conversation_of proposed_by_a ''b'' ''a''))
     = Proposed (Some 3600) (Some ''a'') \<and>
   fst (set_disappear proposed_by_a ''c2'' 2 ''b'' ''a'' (Some 3600)) = Inr StatusEnabled \<and>
   map_option timer_state_of
       (conversation_of (snd (set_disappear proposed_by_a ''c2'' 2 ''b'' ''a'' (Some 3600)))
          ''b'' ''a'') = Some (Active 3600) \<and>
   emissions (log (snd (set_disappear proposed_by_a ''c2'' 2 ''b'' ''a'' (Some 3600))))
     = emissions (log proposed_by_a) @
       [(AgentRoom ''a'', DmDisappearEnabled ''b'' 3600),
        (AgentRoom ''b'', DmDisappearEnabled ''a'' 3600)] \<and>
   \<not> disappearTimerPendingApproval (the (conversation_of quiet_thread ''a'' ''b'')) \<and>
   map_option timer_state_of
       (conversation_of
          (snd (set_disappear (snd (set_disappear quiet_thread ''c2'' 2 ''a'' ''b'' (Some 7200)))
                  ''c3'' 3 ''b'' ''a'' (Some 7200)))
          ''a'' ''b'') = Some (Active 7200) \<and>
   map_option timer_state_of
       (conversation_of
          (snd (set_disappear (snd (set_disappear quiet_thread ''c2'' 2 ''b'' ''a'' (Some 7200)))
                  ''c3'' 3 ''a'' ''b'' (Some 7200)))
          ''a'' ''b'') = Some (Active 7200)"
proof -
  have pr: "printed ''a''" "printed ''b''" by code_simp+
  have c: "conversation_of proposed_by_a ''b'' ''a''
             = Some (the (conversation_of proposed_by_a ''b'' ''a''))"
    by code_simp
  have p: "timer_state_of (the (conversation_of proposed_by_a ''b'' ''a''))
             = Proposed (Some 3600) (Some ''a'')"
    by code_simp
  have c0: "conversation_of quiet_thread ''a'' ''b''
             = Some (the (conversation_of quiet_thread ''a'' ''b''))"
    by code_simp
  have p0: "\<not> disappearTimerPendingApproval (the (conversation_of quiet_thread ''a'' ''b''))"
    by code_simp
  have ne: "''a'' \<noteq> ''b''" "(3600::int) \<noteq> 0" "(7200::int) \<noteq> 0" by simp_all
  have fits: "fits_integer 3600" "fits_integer 7200" by (simp_all add: fits_integer_def)
  from disappear_negotiation [of "''b''" "''a''" proposed_by_a
      "the (conversation_of proposed_by_a ''b'' ''a'')" 3600 "''a''" 3600 "''c2''" 2
      "''a''" "''b''" quiet_thread "the (conversation_of quiet_thread ''a'' ''b'')" 7200
      "''c2''" 2 "''c3''" 3]
    pr c p c0 p0 ne fits
  show ?thesis by simp
qed

text \<open>
  A timer of \<open>2^31\<close> seconds: \<open>b\<close> answers the proposal of 3600 by \<open>a\<close> with it, is
  answered 500, and the proposal of \<open>a\<close> is still the pending one.
\<close>

theorem timer_beyond_integer:
  "map_option timer_state_of (conversation_of proposed_by_a ''b'' ''a'')
     = Some (Proposed (Some 3600) (Some ''a'')) \<and>
   fst (set_disappear proposed_by_a ''c2'' 2 ''b'' ''a'' (Some 2147483648))
     = Inl (HttpError 500 ''Failed to set disappearing messages'') \<and>
   map_option timer_state_of
       (conversation_of (snd (set_disappear proposed_by_a ''c2'' 2 ''b'' ''a'' (Some 2147483648)))
          ''b'' ''a'')
     = Some (Proposed (Some 3600) (Some ''a'')) \<and>
   emissions (log (snd (set_disappear proposed_by_a ''c2'' 2 ''b'' ''a'' (Some 2147483648))))
     = emissions (log proposed_by_a)"
  by code_simp

text \<open>
  The other agent spelled in upper case: \<open>b\<close> has proposed 3600 to \<open>a\<close>, and \<open>a\<close>
  answers 3600 in a request that names \<open>B\<close>. \<open>getOrCreateConversation\<close> orders the
  strings \<open>B\<close> and \<open>a\<close>, finds no row of \<open>(b, a)\<close> and inserts one: the answer is
  a proposal in the new row, and the proposal of \<open>b\<close> stays pending in the old one.
\<close>

lemma answer_spelled_in_upper_case:
  "map_option timer_state_of
       (conversation_of (snd (set_disappear two_agents ''c1'' 1 ''b'' ''a'' (Some 3600)))
          ''a'' ''b'')
     = Some (Proposed (Some 3600) (Some ''b'')) \<and>
   fst (set_disappear (snd (set_disappear two_agents ''c1'' 1 ''b'' ''a'' (Some 3600)))
          ''c2'' 2 ''a'' ''B'' (Some 3600))
     = Inr StatusProposed \<and>
   map (\<lambda>c. (agent1Id c, agent2Id c, timer_state_of c))
       (dmConversations
          (snd (set_disappear (snd (set_disappear two_agents ''c1'' 1 ''b'' ''a'' (Some 3600)))
                  ''c2'' 2 ''a'' ''B'' (Some 3600))))
     = [(''a'', ''b'', Proposed (Some 3600) (Some ''b'')),
        (''b'', ''a'', Proposed (Some 3600) (Some ''a''))]"
  by code_simp

subsection \<open>Blocking\<close>

text \<open>White space of every kind is trimmed: a content of one no-break space is blank.\<close>

lemma trim_white_space:
  "trim [CHR 0xC2, CHR 0xA0] = [] \<and>
   trim [CHR 0xE2, CHR 0x80, CHR 0xA8, CHR 0x20, CHR 0xEF, CHR 0xBB, CHR 0xBF] = [] \<and>
   trim ([CHR 0xE3, CHR 0x80, CHR 0x80] @ ''a b'' @ [CHR 0x0A, CHR 0xC2, CHR 0xA0]) = ''a b''"
  by code_simp

lemma blank_content_refused:
  "trim content = [] \<Longrightarrow>
   post_dm s cid mid now dbNow from to content reply
     = (Inl (HttpError 400 ''Message content is required''), s)"
  by (simp add: post_dm_def)

lemma blocked_cannot_send:
  assumes "isBlocked s to from"
  shows "isl (fst (post_dm s cid mid now dbNow from to content reply))"
    and "snd (post_dm s cid mid now dbNow from to content reply) = s"
    and "trim content \<noteq> [] \<Longrightarrow> agent_exists s (uuid_in to) \<Longrightarrow> to \<noteq> from \<Longrightarrow>
         fst (post_dm s cid mid now dbNow from to content reply)
           = Inl (HttpError 403 ''You cannot message this agent'')"
  using assms by (simp_all add: post_dm_def)

lemma unblocked_can_send:
  assumes nb: "\<not> isBlocked s to from" and c: "trim content \<noteq> []" "\<not> has_nul (trim content)"
    and ex: "agent_exists s (uuid_in from)" "agent_exists s (uuid_in to)" and ne: "to \<noteq> from"
    and fresh: "cid \<notin> set (map c_id (dmConversations s))" "mid \<notin> set (map dm_id (directMessages s))"
  shows "\<exists>dm. fst (post_dm s cid mid now dbNow from to content None) = Inr dm
           \<and> dm_fromAgentId dm = uuid_in from \<and> dm_toAgentId dm = uuid_in to
           \<and> dm_content dm = trim content
           \<and> directMessages (snd (post_dm s cid mid now dbNow from to content None))
               = directMessages s @ [dm]"
proof -
  have "getOrCreateConversation s cid dbNow from to \<noteq> None"
  proof (cases "conversation_of s from to")
    case None
    then show ?thesis using fresh(1) ex by (rule getOrCreateConversation_fresh)
  next
    case (Some conv)
    then show ?thesis by (simp add: getOrCreateConversation_existing)
  qed
  then obtain conv s1 where g: "getOrCreateConversation s cid dbNow from to = Some (conv, s1)"
    by auto
  note r = getOrCreateConversation_result [OF g]
  show ?thesis
    using nb c ex ne fresh(2)
    by (simp add: post_dm_def g r(2) reply_error_def Let_def)
qed

text \<open>
  C3. When \<open>to\<close> has blocked \<open>from\<close>, a send from \<open>from\<close> to \<open>to\<close> never
  succeeds and writes nothing, and it is answered 403 whenever the earlier checks pass
  (a content that is not blank, an existing recipient that the request does not spell as
  the sender). When \<open>to\<close> has not blocked \<open>from\<close>, the send of a content that
  the database stores succeeds, whether or not \<open>from\<close> has blocked \<open>to\<close>: the
  handler only asks \<open>isBlocked(targetAgentId, myAgentId)\<close>.
\<close>

theorem blocking_is_asymmetric:
  "(isBlocked s to from \<longrightarrow>
      isl (fst (post_dm s cid mid now dbNow from to content reply)) \<and>
      snd (post_dm s cid mid now dbNow from to content reply) = s \<and>
      (trim content \<noteq> [] \<and> agent_exists s (uuid_in to) \<and> to \<noteq> from \<longrightarrow>
         fst (post_dm s cid mid now dbNow from to content reply)
           = Inl (HttpError 403 ''You cannot message this agent''))) \<and>
   (\<not> isBlocked s to from \<and> trim content \<noteq> [] \<and> \<not> has_nul (trim content)
      \<and> agent_exists s (uuid_in from) \<and> agent_exists s (uuid_in to)
      \<and> to \<noteq> from \<and> cid \<notin> set (map c_id (dmConversations s))
      \<and> mid \<notin> set (map dm_id (directMessages s)) \<longrightarrow>
      isBlocked (snd (post_dm s cid mid now dbNow from to content None)) from to
        = isBlocked s from to \<and>
      (\<exists>dm. fst (post_dm s cid mid now dbNow from to content None) = Inr dm
         \<and> dm_fromAgentId dm = uuid_in from \<and> dm_toAgentId dm = uuid_in to
         \<and> dm_content dm = trim content
         \<and> directMessages (snd (post_dm s cid mid now dbNow from to content None))
             = directMessages s @ [dm]))"
proof (intro conjI impI)
  assume b: "isBlocked s to from"
  show "isl (fst (post_dm s cid mid now dbNow from to content reply))"
    by (rule blocked_cannot_send(1) [OF b])
  show "snd (post_dm s cid mid now dbNow from to content reply) = s"
    by (rule blocked_cannot_send(2) [OF b])
  assume "trim content \<noteq> [] \<and> agent_exists s (uuid_in to) \<and> to \<noteq> from"
  then show "fst (post_dm s cid mid now dbNow from to content reply)
           = Inl (HttpError 403 ''You cannot message this agent'')"
    using blocked_cannot_send(3) [OF b] by simp
next
  assume h: "\<not> isBlocked s to from \<and> trim content \<noteq> [] \<and> \<not> has_nul (trim content)
      \<and> agent_exists s (uuid_in from) \<and> agent_exists s (uuid_in to)
      \<and> to \<noteq> from \<and> cid \<notin> set (map c_id (dmConversations s))
      \<and> mid \<notin> set (map dm_id (directMessages s))"
  then show "\<exists>dm. fst (post_dm s cid mid now dbNow from to content None) = Inr dm
         \<and> dm_fromAgentId dm = uuid_in from \<and> dm_toAgentId dm = uuid_in to
         \<and> dm_content dm = trim content
         \<and> directMessages (snd (post_dm s cid mid now dbNow from to content None))
             = directMessages s @ [dm]"
    using unblocked_can_send [of s to "from" content cid mid now dbNow] by blast
  show "isBlocked (snd (post_dm s cid mid now dbNow from to content None)) from to
          = isBlocked s from to"
  proof (cases "getOrCreateConversation s cid dbNow from to")
    case None
    then show ?thesis by (simp add: post_dm_def)
  next
    case (Some a)
    then obtain conv s1 where g: "getOrCreateConversation s cid dbNow from to = Some (conv, s1)"
      by (cases a) auto
    note r = getOrCreateConversation_result [OF g]
    show ?thesis
      by (simp add: post_dm_def g Let_def isBlocked_def r(4) split: option.splits)
  qed
qed

text \<open>The witness: \<open>a\<close> has blocked \<open>b\<close>; \<open>b\<close> is refused and \<open>a\<close> still sends.\<close>

theorem blocking_is_asymmetric_witness:
  "isBlocked a_blocked_b ''a'' ''b'' \<and> \<not> isBlocked a_blocked_b ''b'' ''a'' \<and>
   fst (post_dm a_blocked_b ''c1'' ''d1'' 10 11 ''b'' ''a'' ''hello'' None)
     = Inl (HttpError 403 ''You cannot message this agent'') \<and>
   snd (post_dm a_blocked_b ''c1'' ''d1'' 10 11 ''b'' ''a'' ''hello'' None) = a_blocked_b \<and>
   (\<exists>dm. fst (post_dm a_blocked_b ''c1'' ''d1'' 10 11 ''a'' ''b'' ''hello'' None) = Inr dm
      \<and> dm_fromAgentId dm = ''a'' \<and> dm_toAgentId dm = ''b'' \<and> dm_content dm = ''hello''
      \<and> directMessages (snd (post_dm a_blocked_b ''c1'' ''d1'' 10 11 ''a'' ''b'' ''hello'' None))
          = directMessages a_blocked_b @ [dm])"
proof -
  have b: "isBlocked a_blocked_b ''a'' ''b''" by code_simp
  have nb: "\<not> isBlocked a_blocked_b ''b'' ''a''" by code_simp
  have t: "trim ''hello'' = ''hello''" "\<not> has_nul ''hello''" by code_simp+
  have u: "uuid_in ''a'' = ''a''" "uuid_in ''b'' = ''b''" by code_simp+
  have ex: "agent_exists a_blocked_b ''a''" "agent_exists a_blocked_b ''b''" by code_simp+
  have fr: "''c1'' \<notin> set (map c_id (dmConversations a_blocked_b))"
    "''d1'' \<notin> set (map dm_id (directMessages a_blocked_b))" by code_simp+
  have ne: "''a'' \<noteq> ''b''" by simp
  from blocking_is_asymmetric
         [of a_blocked_b "''a''" "''b''" "''c1''" "''d1''" 10 11 "''hello''" None]
    b t u ex ne
  have 1: "fst (post_dm a_blocked_b ''c1'' ''d1'' 10 11 ''b'' ''a'' ''hello'' None)
     = Inl (HttpError 403 ''You cannot message this agent'') \<and>
   snd (post_dm a_blocked_b ''c1'' ''d1'' 10 11 ''b'' ''a'' ''hello'' None) = a_blocked_b"
    by simp
  from blocking_is_asymmetric
         [of a_blocked_b "''b''" "''a''" "''c1''" "''d1''" 10 11 "''hello''" None]
    nb t u ex ne fr
  have 2: "\<exists>dm. fst (post_dm a_blocked_b ''c1'' ''d1'' 10 11 ''a'' ''b'' ''hello'' None) = Inr dm
      \<and> dm_fromAgentId dm = ''a'' \<and> dm_toAgentId dm = ''b'' \<and> dm_content dm = ''hello''
      \<and> directMessages (snd (post_dm a_blocked_b ''c1'' ''d1'' 10 11 ''a'' ''b'' ''hello'' None))
          = directMessages a_blocked_b @ [dm]"
    by simp
  from b nb 1 2 show ?thesis by blast
qed

subsection \<open>Expiry of direct messages\<close>

lemma post_dm_expiry:
  assumes ok: "fst (post_dm s cid mid now dbNow from to content reply) = Inr dm"
  shows "dm_createdAt dm = dbNow"
    and "dm_expiresAt dm =
          (case conversation_of s from to of
             None \<Rightarrow> None
           | Some conv \<Rightarrow>
               (case timer_state_of conv of
                  Active t \<Rightarrow> Some (now + t * 1000)
                | _ \<Rightarrow> None))"
    and "directMessages (snd (post_dm s cid mid now dbNow from to content reply))
           = directMessages s @ [dm]"
proof -
  from ok obtain conv s1 where g: "getOrCreateConversation s cid dbNow from to = Some (conv, s1)"
    by (cases "getOrCreateConversation s cid dbNow from to")
       (auto simp: post_dm_def split: if_splits)
  note r = getOrCreateConversation_result [OF g]
  from ok have dm: "dm = \<lparr>dm_id = mid, dm_fromAgentId = uuid_in from,
                                  dm_toAgentId = uuid_in to, dm_content = trim content,
                                  dm_replyToId =
                                    (if truthy reply then map_option uuid_in reply else None),
                                  dm_read = False,
                                  dm_expiresAt = (case disappearTimer conv of
                       None \<Rightarrow> None
                     | Some timer \<Rightarrow>
                         if timer \<noteq> 0 \<and> \<not> disappearTimerPendingApproval conv
                         then Some (now + timer * 1000) else None),
                                  dm_createdAt = dbNow\<rparr>"
    and ins: "directMessages (snd (post_dm s cid mid now dbNow from to content reply))
           = directMessages s1 @ [dm]"
    by (auto simp: post_dm_def g Let_def split: if_splits option.splits)
  show "dm_createdAt dm = dbNow" by (simp add: dm)
  show "directMessages (snd (post_dm s cid mid now dbNow from to content reply))
           = directMessages s @ [dm]"
    using ins r(2) by simp
  from r(5) show "dm_expiresAt dm =
          (case conversation_of s from to of
             None \<Rightarrow> None
           | Some conv \<Rightarrow>
               (case timer_state_of conv of
                  Active t \<Rightarrow> Some (now + t * 1000)
                | _ \<Rightarrow> None))"
    by (auto simp: dm timer_state_of_def split: option.splits if_splits)
qed

lemma set_disappear_keeps_messages:
  "directMessages (snd (set_disappear s n now X Y timerOpt)) = directMessages s"
proof (cases "getOrCreateConversation s n now X Y")
  case None
  then show ?thesis by (simp add: set_disappear_def)
next
  case (Some a)
  then obtain conv s1 where g: "getOrCreateConversation s n now X Y = Some (conv, s1)"
    by (cases a) auto
  note r = getOrCreateConversation_result [OF g]
  show ?thesis
    by (simp add: set_disappear_def g Let_def update_conversation_def r(2)
        split: option.splits)
qed

text \<open>
  C5. Let the two agents be named by their identifiers as the database prints them. A
  direct message that is sent is created at the time \<open>dbNow\<close> that the database reads
  at the insert, and it expires \<open>t\<close> seconds after the time \<open>now\<close> that the handler
  reads from \<open>Date.now()\<close>, exactly when the timer of its conversation is active at
  \<open>t\<close>; it never expires when the timer is disabled, when a proposal is pending, or
  when the conversation did not exist. Setting the timer changes no message, so the
  messages sent before an activation keep the expiry they had.
\<close>

theorem expiry_follows_timer:
  "(printed from \<and> printed to
      \<and> fst (post_dm s cid mid now dbNow from to content reply) = Inr dm \<longrightarrow>
      directMessages (snd (post_dm s cid mid now dbNow from to content reply))
        = directMessages s @ [dm] \<and>
      dm_createdAt dm = dbNow \<and>
      dm_expiresAt dm =
        (case conversation_of s from to of
           None \<Rightarrow> None
         | Some conv \<Rightarrow>
             (case timer_state_of conv of
                Active t \<Rightarrow> Some (now + t * 1000)
              | _ \<Rightarrow> None))) \<and>
   directMessages (snd (set_disappear s n now' X Y timerOpt)) = directMessages s"
  using post_dm_expiry [of s cid mid now dbNow "from" to content reply dm]
    set_disappear_keeps_messages [of s n now' X Y timerOpt]
  by blast

text \<open>
  The witness: a message sent while the timer is active at 3600 seconds, the handler
  reading 5000 and the database 5003.
\<close>

theorem expiry_follows_timer_witness:
  "printed ''a'' \<and> printed ''b'' \<and>
   fst (post_dm active_thread ''c9'' ''d1'' 5000 5003 ''a'' ''b'' ''hi'' None)
     = Inr \<lparr>dm_id = ''d1'', dm_fromAgentId = ''a'', dm_toAgentId = ''b'', dm_content = ''hi'',
            dm_replyToId = None, dm_read = False, dm_expiresAt = Some 3605000,
            dm_createdAt = 5003\<rparr> \<and>
   map_option timer_state_of (conversation_of active_thread ''a'' ''b'') = Some (Active 3600) \<and>
   directMessages (snd (post_dm active_thread ''c9'' ''d1'' 5000 5003 ''a'' ''b'' ''hi'' None))
     = directMessages active_thread @
       [\<lparr>dm_id = ''d1'', dm_fromAgentId = ''a'', dm_toAgentId = ''b'', dm_content = ''hi'',
         dm_replyToId = None, dm_read = False, dm_expiresAt = Some 3605000,
         dm_createdAt = 5003\<rparr>] \<and>
   directMessages (snd (set_disappear active_thread ''c9'' 6000 ''a'' ''b'' (Some 60)))
     = directMessages active_thread"
proof -
  have pr: "printed ''a''" "printed ''b''" by code_simp+
  have a: "fst (post_dm active_thread ''c9'' ''d1'' 5000 5003 ''a'' ''b'' ''hi'' None)
     = Inr \<lparr>dm_id = ''d1'', dm_fromAgentId = ''a'', dm_toAgentId = ''b'', dm_content = ''hi'',
            dm_replyToId = None, dm_read = False, dm_expiresAt = Some 3605000,
            dm_createdAt = 5003\<rparr>"
    by code_simp
  have b: "map_option timer_state_of (conversation_of active_thread ''a'' ''b'')
             = Some (Active 3600)"
    by code_simp
  from expiry_follows_timer [of "''a''" "''b''" active_thread "''c9''" "''d1''" 5000 5003
      "''hi''" None
      "\<lparr>dm_id = ''d1'', dm_fromAgentId = ''a'', dm_toAgentId = ''b'', dm_content = ''hi'',
            dm_replyToId = None, dm_read = False, dm_expiresAt = Some 3605000,
            dm_createdAt = 5003\<rparr>" "''c9''" 6000 "''a''" "''b''" "Some 60"] pr a b
  show ?thesis by blast
qed

text \<open>
  The same message: the timer is active at 3600 seconds, the handler reads 5000 from its
  clock and the database reads 5003 at the insert. The message expires at 3605000, which
  is not 3600 seconds after its creation.
\<close>

theorem expiry_not_from_creation:
  "map_option timer_state_of (conversation_of active_thread ''a'' ''b'') = Some (Active 3600) \<and>
   map_sum id (\<lambda>dm. (dm_createdAt dm, dm_expiresAt dm))
       (fst (post_dm active_thread ''c9'' ''d1'' 5000 5003 ''a'' ''b'' ''hi'' None))
     = Inr (5003, Some 3605000) \<and>
   map_sum id (\<lambda>dm. dm_expiresAt dm = Some (dm_createdAt dm + 3600 * 1000))
       (fst (post_dm active_thread ''c9'' ''d1'' 5000 5003 ''a'' ''b'' ''hi'' None))
     = Inr False"
  by code_simp

text \<open>
  The other agent spelled in upper case: the timer of \<open>a\<close> and \<open>b\<close> is active, and
  \<open>a\<close> sends to \<open>B\<close>. \<open>getOrCreateConversation\<close> inserts a row of \<open>(b, a)\<close>, which
  has no timer, and the message to \<open>b\<close> never expires.
\<close>

lemma send_spelled_in_upper_case:
  "map_option timer_state_of (conversation_of active_thread ''a'' ''b'') = Some (Active 3600) \<and>
   fst (post_dm active_thread ''c9'' ''d1'' 5000 5003 ''a'' ''B'' ''hi'' None)
     = Inr \<lparr>dm_id = ''d1'', dm_fromAgentId = ''a'', dm_toAgentId = ''b'', dm_content = ''hi'',
            dm_replyToId = None, dm_read = False, dm_expiresAt = None,
            dm_createdAt = 5003\<rparr> \<and>
   map (\<lambda>c. (agent1Id c, agent2Id c, timer_state_of c))
       (dmConversations
          (snd (post_dm active_thread ''c9'' ''d1'' 5000 5003 ''a'' ''B'' ''hi'' None)))
     = [(''a'', ''b'', Active 3600), (''b'', ''a'', Disabled)]"
  by code_simp

subsection \<open>Clearing a conversation\<close>

lemma thread_view_cong:
  assumes "directMessages s' = directMessages s" and "dmReactions s' = dmReactions s"
  shows "thread_view s' c now me target k = thread_view s c now me target k"
proof -
  have "enrich_dm s' = enrich_dm s"
    by (rule ext) (simp add: enrich_dm_def assms cong: option.case_cong)
  then show ?thesis by (simp add: thread_view_def assms)
qed

lemma thread_view_after_clear:
  "v \<in> set (thread_view s (Some cleared) now me target k) \<Longrightarrow>
   cleared \<le> dm_createdAt (v_message v)"
  by (auto simp: thread_view_def Let_def visible_def enrich_dm_def split: if_splits)

lemma thread_view_all_cleared:
  assumes "\<forall>m \<in> set (directMessages s).
             in_thread (uuid_in me) (uuid_in target) m \<longrightarrow> dm_createdAt m < cleared"
  shows "thread_view s (Some cleared) now me target k = []"
proof -
  have "\<not> visible (Some cleared) now m"
    if "m \<in> set (take k (order_by_desc dm_createdAt
                            (filter (in_thread (uuid_in me) (uuid_in target))
                               (directMessages s))))" for m
  proof -
    from that have "m \<in> set (filter (in_thread (uuid_in me) (uuid_in target))
                                (directMessages s))"
      by (auto dest!: in_set_takeD simp: order_by_desc_def)
    with assms show ?thesis by (simp add: visible_def)
  qed
  then show ?thesis by (simp add: thread_view_def Let_def filter_empty_conv)
qed

lemma get_dms_existing:
  "conversation_of s me target = Some conv \<Longrightarrow>
   fst (get_dms s newId now me target limit)
     = Inr (thread_view s (my_cleared_at conv me target) now me target (query_limit limit))"
  by (simp add: get_dms_def getOrCreateConversation_existing Let_def)

lemma clear_conversation_result:
  assumes ab: "A \<noteq> B" and ok: "fst (clear_conversation s n now A B) = Inr ()"
  shows "directMessages (snd (clear_conversation s n now A B)) = directMessages s"
    and "dmReactions (snd (clear_conversation s n now A B)) = dmReactions s"
    and "\<exists>conv'. conversation_of (snd (clear_conversation s n now A B)) A B = Some conv'
           \<and> my_cleared_at conv' A B = Some now
           \<and> my_cleared_at conv' B A = cleared_at s B A
           \<and> timer_state_of conv'
               = (case conversation_of s A B of None \<Rightarrow> Disabled | Some c \<Rightarrow> timer_state_of c)"
proof -
  from ok obtain conv s1 where g: "getOrCreateConversation s n now A B = Some (conv, s1)"
    by (cases "getOrCreateConversation s n now A B") (auto simp: clear_conversation_def)
  note r = getOrCreateConversation_result [OF g]
  define f :: "dm_conversation \<Rightarrow> dm_conversation" where "f = (\<lambda>c. if A < B then c\<lparr>agent1ClearedAt := Some now, c_updatedAt := now\<rparr>
                            else c\<lparr>agent2ClearedAt := Some now, c_updatedAt := now\<rparr>)"
  have s': "snd (clear_conversation s n now A B)
            = (update_conversation s1 (c_id conv) f)
                \<lparr>log := log (update_conversation s1 (c_id conv) f)
                         @ [Emit (AgentRoom B) (DmCleared A)]\<rparr>"
    by (simp add: clear_conversation_def g Let_def f_def)
  show "directMessages (snd (clear_conversation s n now A B)) = directMessages s"
    by (simp add: s' update_conversation_def r(2))
  show "dmReactions (snd (clear_conversation s n now A B)) = dmReactions s"
    by (simp add: s' update_conversation_def r(3))
  have keep: "agent1Id (f c) = agent1Id c \<and> agent2Id (f c) = agent2Id c" for c
    by (simp add: f_def)
  have c': "conversation_of (snd (clear_conversation s n now A B)) A B = Some (f conv)"
    unfolding s' conversation_of_log by (rule conversation_of_update [OF r(1) keep])
  have mine: "my_cleared_at (f conv) A B = Some now"
    by (simp add: my_cleared_at_def f_def)
  have "my_cleared_at (f conv) B A = my_cleared_at conv B A"
    using ab by (auto simp: my_cleared_at_def f_def)
  moreover have "my_cleared_at conv B A = cleared_at s B A"
    using r(5) by (auto simp: cleared_at_def conversation_of_sym [of s B A] my_cleared_at_def)
  moreover have "timer_state_of (f conv) = timer_state_of conv"
    by (simp add: timer_state_of_def f_def)
  moreover have "timer_state_of conv
      = (case conversation_of s A B of None \<Rightarrow> Disabled | Some c \<Rightarrow> timer_state_of c)"
    using r(5) by auto
  ultimately show "\<exists>conv'. conversation_of (snd (clear_conversation s n now A B)) A B = Some conv'
           \<and> my_cleared_at conv' A B = Some now
           \<and> my_cleared_at conv' B A = cleared_at s B A
           \<and> timer_state_of conv'
               = (case conversation_of s A B of None \<Rightarrow> Disabled | Some c \<Rightarrow> timer_state_of c)"
    using c' mine by simp
qed

lemma get_dms_hides_cleared:
  assumes "conversation_of s me target = Some conv" and "my_cleared_at conv me target = Some cleared"
    and "fst (get_dms s newId now me target limit) = Inr vs" and "v \<in> set vs"
  shows "cleared \<le> dm_createdAt (v_message v)"
  using assms by (auto simp: get_dms_existing dest: thread_view_after_clear)

text \<open>
  As long as the requests spell the two agents in one way: after \<open>A\<close> has cleared the
  conversation with \<open>B\<close> at time \<open>now\<close>, the messages and their reactions are as they
  were, the cleared time of \<open>A\<close> is \<open>now\<close>, that of \<open>B\<close> and the state of the timer
  are what they were; the listing of \<open>A\<close> is the listing of the old store with the
  cleared time \<open>now\<close>, so it shows no message created before \<open>now\<close> and nothing at
  all if every message of the thread was; the listing of \<open>B\<close> is the listing of the old
  store with the cleared time \<open>B\<close> had.
\<close>

lemma clear_is_one_sided:
  assumes ab: "A \<noteq> B" and ok: "fst (clear_conversation s n now A B) = Inr ()"
  shows "directMessages (snd (clear_conversation s n now A B)) = directMessages s \<and>
     dmReactions (snd (clear_conversation s n now A B)) = dmReactions s \<and>
     cleared_at (snd (clear_conversation s n now A B)) A B = Some now \<and>
     cleared_at (snd (clear_conversation s n now A B)) B A = cleared_at s B A \<and>
     map_option timer_state_of (conversation_of (snd (clear_conversation s n now A B)) A B)
       = Some (case conversation_of s A B of None \<Rightarrow> Disabled | Some c \<Rightarrow> timer_state_of c) \<and>
     fst (get_dms (snd (clear_conversation s n now A B)) n' now' A B limit)
       = Inr (thread_view s (Some now) now' A B (query_limit limit)) \<and>
     (\<forall>v \<in> set (thread_view s (Some now) now' A B (query_limit limit)).
        now \<le> dm_createdAt (v_message v)) \<and>
     ((\<forall>m \<in> set (directMessages s).
         in_thread (uuid_in A) (uuid_in B) m \<longrightarrow> dm_createdAt m < now) \<longrightarrow>
        fst (get_dms (snd (clear_conversation s n now A B)) n' now' A B limit) = Inr []) \<and>
     fst (get_dms (snd (clear_conversation s n now A B)) n' now' B A limit)
       = Inr (thread_view s (cleared_at s B A) now' B A (query_limit limit))"
proof -
  let ?s' = "snd (clear_conversation s n now A B)"
  note r = clear_conversation_result [OF ab ok]
  from r(3) obtain conv' where c': "conversation_of ?s' A B = Some conv'"
    and mine: "my_cleared_at conv' A B = Some now"
    and theirs: "my_cleared_at conv' B A = cleared_at s B A"
    and timer: "timer_state_of conv'
               = (case conversation_of s A B of None \<Rightarrow> Disabled | Some c \<Rightarrow> timer_state_of c)"
    by blast
  from c' have c'': "conversation_of ?s' B A = Some conv'"
    by (simp add: conversation_of_sym [of _ B A])
  have tv: "thread_view ?s' c t me target k = thread_view s c t me target k" for c t me target k
    by (rule thread_view_cong [OF r(1,2)])
  have a: "fst (get_dms ?s' n' now' A B limit)
             = Inr (thread_view s (Some now) now' A B (query_limit limit))"
    by (simp add: get_dms_existing [OF c'] mine tv)
  have b: "fst (get_dms ?s' n' now' B A limit)
             = Inr (thread_view s (cleared_at s B A) now' B A (query_limit limit))"
    by (simp add: get_dms_existing [OF c''] theirs tv)
  have ca: "cleared_at ?s' A B = Some now" and cb: "cleared_at ?s' B A = cleared_at s B A"
    using c' c'' mine theirs by (simp_all add: cleared_at_def)
  have ts: "map_option timer_state_of (conversation_of ?s' A B)
       = Some (case conversation_of s A B of None \<Rightarrow> Disabled | Some c \<Rightarrow> timer_state_of c)"
    using c' timer by simp
  have old: "(\<forall>m \<in> set (directMessages s).
                in_thread (uuid_in A) (uuid_in B) m \<longrightarrow> dm_createdAt m < now) \<longrightarrow>
        fst (get_dms ?s' n' now' A B limit) = Inr []"
    by (simp add: a thread_view_all_cleared)
  have new: "\<forall>v \<in> set (thread_view s (Some now) now' A B (query_limit limit)).
        now \<le> dm_createdAt (v_message v)"
    by (blast dest: thread_view_after_clear)
  from r(1,2) ca cb ts a new old b show ?thesis by blast
qed

text \<open>
  C9. Three messages between \<open>a\<close> and \<open>b\<close>, at times 10, 20 and 30; \<open>a\<close> clears
  the conversation with \<open>b\<close> at 40: the three messages are kept, \<open>a\<close> lists nothing
  and \<open>b\<close> lists the three. But \<open>a\<close> lists the three again in a request that names
  \<open>B\<close>: the handler compares the strings \<open>a\<close> and \<open>B\<close>, takes \<open>a\<close> for the
  second agent of the conversation, finds no row of \<open>(b, a)\<close>, inserts one, and reads
  its cleared time for the second agent, which is none.
\<close>

theorem cleared_thread_listed_again:
  "fst (clear_conversation three_dms ''c4'' 40 ''a'' ''b'') = Inr () \<and>
   map (\<lambda>m. (dm_id m, dm_createdAt m))
       (directMessages (snd (clear_conversation three_dms ''c4'' 40 ''a'' ''b'')))
     = [(''d1'', 10), (''d2'', 20), (''d3'', 30)] \<and>
   cleared_at (snd (clear_conversation three_dms ''c4'' 40 ''a'' ''b'')) ''a'' ''b'' = Some 40 \<and>
   fst (get_dms (snd (clear_conversation three_dms ''c4'' 40 ''a'' ''b'')) ''c5'' 50 ''a'' ''b'' None)
     = Inr [] \<and>
   map_sum id (map (dm_id \<circ> v_message))
       (fst (get_dms (snd (clear_conversation three_dms ''c4'' 40 ''a'' ''b''))
               ''c5'' 50 ''b'' ''a'' None))
     = Inr [''d1'', ''d2'', ''d3''] \<and>
   map_sum id (map (dm_id \<circ> v_message))
       (fst (get_dms (snd (clear_conversation three_dms ''c4'' 40 ''a'' ''b''))
               ''c5'' 50 ''a'' ''B'' None))
     = Inr [''d1'', ''d2'', ''d3''] \<and>
   map (\<lambda>c. (agent1Id c, agent2Id c, agent1ClearedAt c, agent2ClearedAt c))
       (dmConversations
          (snd (get_dms (snd (clear_conversation three_dms ''c4'' 40 ''a'' ''b''))
                  ''c5'' 50 ''a'' ''B'' None)))
     = [(''a'', ''b'', Some 40, None), (''b'', ''a'', None, None)]"
  by code_simp

subsection \<open>The order of the participants of a conversation\<close>

text \<open>
  A row that \<open>getOrCreateConversation\<close> creates for two identifiers spelled as the
  database prints them is not reversed, and its participants are equal only when the two
  are. For another spelling the row may be reversed: the strings are ordered, and the
  values are stored.
\<close>

lemma created_rows_ordered:
  assumes "getOrCreateConversation s newId now a b = Some (conv, s1)"
    and "conversation_of s a b = None" and "printed a" and "printed b"
  shows "agent1Id conv \<le> agent2Id conv" and "a \<noteq> b \<Longrightarrow> agent1Id conv < agent2Id conv"
    and "dmConversations s1 = dmConversations s @ [conv]"
  using assms
  by (auto simp: getOrCreateConversation_def conversation_of_def Let_def printed_def
      split: if_splits)

lemma reversed_row:
  "fst (get_dms two_agents ''c1'' 5 ''a'' ''B'' None) = Inr [] \<and>
   map (\<lambda>c. (agent1Id c, agent2Id c))
       (dmConversations (snd (get_dms two_agents ''c1'' 5 ''a'' ''B'' None)))
     = [(''b'', ''a'')]"
  by code_simp

text \<open>
  The send handler creates no row with equal participants for identifiers spelled as the
  database prints them.
\<close>

lemma post_dm_rows:
  assumes "printed from" and "printed to"
  shows
  "dmConversations (snd (post_dm s cid mid now dbNow from to content reply)) = dmConversations s \<or>
   (\<exists>conv. dmConversations (snd (post_dm s cid mid now dbNow from to content reply))
             = dmConversations s @ [conv] \<and> agent1Id conv < agent2Id conv)"
proof (cases "trim content = [] \<or> \<not> agent_exists s (uuid_in to) \<or> to = from
              \<or> isBlocked s to from")
  case True
  then show ?thesis by (auto simp: post_dm_def)
next
  case False
  then have ne: "from \<noteq> to" by auto
  show ?thesis
  proof (cases "getOrCreateConversation s cid dbNow from to")
    case None
    with False show ?thesis by (simp add: post_dm_def)
  next
    case (Some a)
    then obtain conv s1 where g: "getOrCreateConversation s cid dbNow from to = Some (conv, s1)"
      by (cases a) auto
    have s1: "dmConversations (snd (post_dm s cid mid now dbNow from to content reply))
                = dmConversations s1"
      using False by (simp add: post_dm_def g Let_def split: option.splits)
    show ?thesis
    proof (cases "conversation_of s from to")
      case None
      from created_rows_ordered(2,3) [OF g None assms] ne show ?thesis by (simp add: s1)
    next
      case (Some c)
      with g have "s1 = s" by (simp add: getOrCreateConversation_existing)
      then show ?thesis by (simp add: s1)
    qed
  qed
qed

text \<open>
  C4. The thread listing looks the conversation up before any check that the other agent
  is not the caller: an agent that lists its thread with itself creates a row whose two
  participants are equal. So do the clear, settings and timer handlers.
\<close>

theorem self_conversation_row:
  "agent_exists two_agents ''a'' \<and> dmConversations two_agents = [] \<and>
   fst (get_dms two_agents ''c1'' 5 ''a'' ''a'' None) = Inr [] \<and>
   map (\<lambda>c. (agent1Id c, agent2Id c))
       (dmConversations (snd (get_dms two_agents ''c1'' 5 ''a'' ''a'' None)))
     = [(''a'', ''a'')] \<and>
   map (\<lambda>c. (agent1Id c, agent2Id c))
       (dmConversations (snd (clear_conversation two_agents ''c1'' 5 ''a'' ''a'')))
     = [(''a'', ''a'')] \<and>
   map (\<lambda>c. (agent1Id c, agent2Id c))
       (dmConversations (snd (get_dm_settings two_agents ''c1'' 5 ''a'' ''a'')))
     = [(''a'', ''a'')] \<and>
   map (\<lambda>c. (agent1Id c, agent2Id c))
       (dmConversations (snd (set_disappear two_agents ''c1'' 5 ''a'' ''a'' (Some 60))))
     = [(''a'', ''a'')]"
  by code_simp

subsection \<open>Verifying a claim twice\<close>

text \<open>
  Whatever the store, if no two agents share a claim token, a verification that follows
  a successful one with the same token finds no agent.
\<close>

lemma verify_claim_success:
  assumes ok: "fst (verify_claim s env token handle) = Inr ()"
  obtains agent where "find (\<lambda>a. a_claimToken a = Some token) (agents s) = Some agent"
    and "handle \<noteq> []" and "\<not> a_claimed agent" and "twitter_error env = None"
proof -
  have h: "handle \<noteq> []"
  proof
    assume "handle = []"
    then have "fst (verify_claim s env token handle) \<noteq> Inr ()"
      by (simp add: verify_claim_def)
    with ok show False by simp
  qed
  have "find (\<lambda>a. a_claimToken a = Some token) (agents s) \<noteq> None"
  proof
    assume "find (\<lambda>a. a_claimToken a = Some token) (agents s) = None"
    then have "fst (verify_claim s env token handle) \<noteq> Inr ()"
      by (simp add: verify_claim_def)
    with ok show False by simp
  qed
  then obtain agent where f: "find (\<lambda>a. a_claimToken a = Some token) (agents s) = Some agent"
    by auto
  have nc: "\<not> a_claimed agent"
  proof
    assume "a_claimed agent"
    then have "fst (verify_claim s env token handle) \<noteq> Inr ()"
      by (simp add: verify_claim_def f)
    with ok show False by simp
  qed
  have te: "twitter_error env = None"
  proof (cases "twitter_error env")
    case (Some e)
    then have "fst (verify_claim s env token handle) \<noteq> Inr ()"
      by (simp add: verify_claim_def f nc)
    with ok show ?thesis by simp
  qed simp
  from f h nc te show thesis by (rule that)
qed

lemma verify_claim_unknown_token:
  "find (\<lambda>a. a_claimToken a = Some token) (agents s) = None \<Longrightarrow>
   fst (verify_claim s env token handle)
     = (if handle = [] then Inl (HttpError 400 ''Twitter handle is required'')
        else Inl (HttpError 404 ''Invalid claim token''))"
  by (simp add: verify_claim_def)

lemma verify_claim_tokens_left:
  assumes f: "find (\<lambda>a. a_claimToken a = Some token) (agents s) = Some agent"
    and h: "handle \<noteq> []" and nc: "\<not> a_claimed agent" and te: "twitter_error env = None"
  shows "\<forall>a \<in> set (agents (snd (verify_claim s env token handle))).
           a_claimToken a = Some token \<longrightarrow>
           (\<exists>b \<in> set (agents s). a_claimToken b = Some token \<and> a_id b \<noteq> a_id agent)"
  by (auto simp add: verify_claim_def f h nc te Let_def)

lemma reverify_not_found:
  assumes uniq: "\<forall>a \<in> set (agents s). \<forall>a' \<in> set (agents s).
                   a_claimToken a = Some token \<and> a_claimToken a' = Some token \<longrightarrow> a_id a = a_id a'"
    and ok: "fst (verify_claim s env token handle) = Inr ()"
  shows "fst (verify_claim (snd (verify_claim s env token handle)) env' token handle')
           = (if handle' = [] then Inl (HttpError 400 ''Twitter handle is required'')
              else Inl (HttpError 404 ''Invalid claim token''))"
proof -
  from ok obtain agent where f: "find (\<lambda>a. a_claimToken a = Some token) (agents s) = Some agent"
    and h: "handle \<noteq> []" and nc: "\<not> a_claimed agent" and te: "twitter_error env = None"
    by (rule verify_claim_success)
  from f have ag: "agent \<in> set (agents s)" "a_claimToken agent = Some token"
    by (auto simp: find_Some_iff)
  have "a_claimToken a \<noteq> Some token"
    if "a \<in> set (agents (snd (verify_claim s env token handle)))" for a
  proof
    assume "a_claimToken a = Some token"
    with verify_claim_tokens_left [OF f h nc te] that
    obtain b where "b \<in> set (agents s)" "a_claimToken b = Some token" "a_id b \<noteq> a_id agent"
      by blast
    with uniq ag show False by blast
  qed
  then have "find (\<lambda>a. a_claimToken a = Some token)
               (agents (snd (verify_claim s env token handle))) = None"
    by (simp only: find_None_iff) blast
  then show ?thesis by (rule verify_claim_unknown_token)
qed

text \<open>
  C6. The verification looks the agent up by its claim token and a successful
  verification sets the token to null: the second verification with the same token is
  answered 404 \<open>Invalid claim token\<close>, and the branch that answers
  \<open>Agent already claimed\<close> is not reached.
\<close>

theorem reverify_invalid_token:
  "fst (verify_claim two_agents DevMode ''token-a'' ''@ava_owner'') = Inr () \<and>
   map a_claimed (agents (snd (verify_claim two_agents DevMode ''token-a'' ''@ava_owner'')))
     = [True, False] \<and>
   fst (verify_claim (snd (verify_claim two_agents DevMode ''token-a'' ''@ava_owner''))
          DevMode ''token-a'' ''@ava_owner'')
     = Inl (HttpError 404 ''Invalid claim token'')"
  by code_simp

subsection \<open>The listing of group messages\<close>

text \<open>
  The listing of a member answers with as many messages as the limit of the query string
  asks for, if the group has them, in chronological order; the listing of the observer
  answers with 100 at most.
\<close>

lemma length_newest_messages:
  "length (newest_messages s g n)
     = min n (length (filter (\<lambda>m. m_groupId m = g \<and> agent_exists s (m_agentId m)) (messages s)))"
  by (simp add: newest_messages_def order_by_desc_def min.commute)

lemma get_messages_length:
  assumes "find (is_membership g a) (groupMembers s) \<noteq> None"
  shows "\<exists>ms. get_messages s a g limit = Inr ms \<and>
           length ms = min (query_limit limit)
             (length (filter (\<lambda>m. m_groupId m = g \<and> agent_exists s (m_agentId m)) (messages s)))"
  using assms by (simp add: get_messages_def Let_def length_newest_messages)

lemma observer_get_messages_length:
  "observer_get_messages s now g limit = Inr ms \<Longrightarrow> length ms \<le> 100"
  by (auto simp: observer_get_messages_def Let_def length_newest_messages observer_limit_def
      split: if_splits)

lemma rev_take_rev: "rev (take n (rev xs)) = drop (length xs - n) xs"
  by (simp add: rev_take)

lemma newest_messages_chronological:
  "sorted (map m_createdAt (rev (newest_messages s g n)))"
proof -
  have "sorted_wrt (\<le>) (drop k (map m_createdAt (sort_key m_createdAt xs)))" for k xs
    by (rule sorted_wrt_drop) simp
  then show ?thesis
    by (simp add: newest_messages_def order_by_desc_def rev_take_rev drop_map)
qed

lemma get_messages_chronological:
  "get_messages s a g limit = Inr ms \<Longrightarrow> sorted (map (m_createdAt \<circ> mv_message) ms)"
proof -
  assume "get_messages s a g limit = Inr ms"
  then have ms: "ms = rev (map (enrich_message s) (newest_messages s g (query_limit limit)))"
    by (auto simp: get_messages_def Let_def split: if_splits)
  have "map (m_createdAt \<circ> mv_message) ms
          = map m_createdAt (rev (newest_messages s g (query_limit limit)))"
    by (simp add: ms rev_map enrich_message_def comp_def)
  then show ?thesis by (simp only: newest_messages_chronological)
qed

lemma newest_messages_newest:
  assumes x: "x \<in> set (newest_messages s g n)"
    and y: "m_groupId y = g" "agent_exists s (m_agentId y)" "y \<in> set (messages s)"
      "y \<notin> set (newest_messages s g n)"
  shows "m_createdAt y \<le> m_createdAt x"
proof -
  define ys where "ys = order_by_desc m_createdAt
       (filter (\<lambda>m. m_groupId m = g \<and> agent_exists s (m_agentId m)) (messages s))"
  have "sorted_wrt (\<lambda>a b. m_createdAt b \<le> m_createdAt a) ys"
  proof -
    have "sorted (map m_createdAt (rev ys))"
      by (simp add: ys_def order_by_desc_def)
    then show ?thesis
      by (simp add: sorted_wrt_rev sorted_wrt_map rev_map [symmetric] del: rev_map)
  qed
  then have "sorted_wrt (\<lambda>a b. m_createdAt b \<le> m_createdAt a) (take n ys @ drop n ys)"
    by simp
  then have *: "\<forall>a \<in> set (take n ys). \<forall>b \<in> set (drop n ys). m_createdAt b \<le> m_createdAt a"
    by (simp only: sorted_wrt_append) blast
  from y have "y \<in> set ys" by (simp add: ys_def order_by_desc_def)
  then have "y \<in> set (take n ys) \<union> set (drop n ys)"
    by (metis append_take_drop_id set_append)
  with y(4) have "y \<in> set (drop n ys)" by (simp add: newest_messages_def ys_def)
  moreover from x have "x \<in> set (take n ys)" by (simp add: newest_messages_def ys_def)
  ultimately show ?thesis using * by blast
qed


lemma trim_hi: "trim ''hi'' = ''hi''"
  by code_simp

lemma nth_message_id_fresh:
  "replicate (Suc n) CHR ''m'' \<notin> set (map m_id (map nth_message [0..<n]))"
proof
  assume "replicate (Suc n) CHR ''m'' \<in> set (map m_id (map nth_message [0..<n]))"
  then obtain i where "i < n" and "replicate (Suc n) CHR ''m'' = replicate (Suc i) CHR ''m''"
    by (auto simp: nth_message_def)
  then have "length (replicate (Suc n) CHR ''m'') = length (replicate (Suc i) CHR ''m'')"
    by (simp only:)
  with \<open>i < n\<close> show False by simp
qed

lemma fold_send_nth:
  assumes m: "find (is_membership ''g1'' ''a'') (groupMembers s) \<noteq> None"
    and e: "messages s = []"
  shows "messages (fold send_nth [0..<n] s) = map nth_message [0..<n]
         \<and> groupMembers (fold send_nth [0..<n] s) = groupMembers s
         \<and> agents (fold send_nth [0..<n] s) = agents s"
proof (induction n)
  case 0
  show ?case by (simp add: e)
next
  case (Suc n)
  define sn where "sn = fold send_nth [0..<n] s"
  from Suc have ms: "messages sn = map nth_message [0..<n]"
    and gm: "groupMembers sn = groupMembers s" and ag: "agents sn = agents s"
    by (simp_all add: sn_def)
  have fresh: "replicate (Suc n) CHR ''m'' \<notin> set (map m_id (messages sn))"
    unfolding ms by (rule nth_message_id_fresh)
  have step: "send_nth n sn
      = sn\<lparr>messages := messages sn @ [nth_message n],
            log := log sn @ [DbInsert Messages,
                             Emit (GroupRoom ''g1'') (MessageNew (nth_message n))]\<rparr>"
    using m fresh
    by (simp add: send_nth_def post_message_def trim_hi has_nul_def gm truthy_def
        nth_message_def Let_def)
  have "fold send_nth [0..<Suc n] s = send_nth n sn"
    by (simp add: sn_def)
  then show ?case by (simp add: step ms gm ag)
qed

lemma busy_group_fields:
  "groupMembers busy_group = [\<lparr>gm_groupId = ''g1'', gm_agentId = ''a'', gm_role = Admin\<rparr>]"
  "messages busy_group = map nth_message [0..<101]"
  "agent_exists busy_group ''a''"
proof -
  define s0 where "s0 = group_run two_agents [Create ''g1'' ''a'' ''Lobby'' None True]"
  have g: "groupMembers s0 = [\<lparr>gm_groupId = ''g1'', gm_agentId = ''a'', gm_role = Admin\<rparr>]"
    unfolding s0_def by code_simp
  have e: "messages s0 = []"
    unfolding s0_def by code_simp
  have a: "agent_exists s0 ''a''"
    unfolding s0_def by code_simp
  from g have m: "find (is_membership ''g1'' ''a'') (groupMembers s0) \<noteq> None"
    by (simp add: is_membership_def)
  have b: "busy_group = fold send_nth [0..<101] s0"
    by (simp only: busy_group_def s0_def)
  note f = fold_send_nth [OF m e, of 101, folded b]
  from f g show "groupMembers busy_group
      = [\<lparr>gm_groupId = ''g1'', gm_agentId = ''a'', gm_role = Admin\<rparr>]"
    by (simp del: upt_rec_numeral)
  from f show "messages busy_group = map nth_message [0..<101]"
    by (simp del: upt_rec_numeral)
  from f a show "agent_exists busy_group ''a''"
    by (simp add: agent_exists_def del: upt_rec_numeral)
qed

text \<open>
  C7. The authenticated listing does not clamp the limit: in a group with 101 messages,
  a member who asks for 101 messages receives 101.
\<close>

theorem listing_not_clamped:
  "(case get_messages busy_group ''a'' ''g1'' (Some 101) of
      Inl e \<Rightarrow> None | Inr ms \<Rightarrow> Some (length ms)) = Some 101"
proof -
  have m: "find (is_membership ''g1'' ''a'') (groupMembers busy_group) \<noteq> None"
    by (simp add: busy_group_fields(1) is_membership_def)
  have keep: "m_groupId (nth_message i) = ''g1'' \<and> agent_exists busy_group (m_agentId (nth_message i))"
    for i
    by (simp add: nth_message_def busy_group_fields(3))
  have "filter (\<lambda>m. m_groupId m = ''g1'' \<and> agent_exists busy_group (m_agentId m))
          (map nth_message xs) = map nth_message xs" for xs
    by (induction xs) (simp_all add: keep)
  then have "length (filter (\<lambda>m. m_groupId m = ''g1'' \<and> agent_exists busy_group (m_agentId m))
          (messages busy_group)) = length (map nth_message [0..<101])"
    by (simp only: busy_group_fields(2))
  also have "\<dots> = 101" by (simp del: upt_rec_numeral)
  finally have n: "length (filter (\<lambda>m. m_groupId m = ''g1'' \<and> agent_exists busy_group (m_agentId m))
          (messages busy_group)) = 101" .
  from get_messages_length [OF m, of "Some 101"] obtain ms where
    "get_messages busy_group ''a'' ''g1'' (Some 101) = Inr ms"
    and "length ms = min (query_limit (Some 101)) 101"
    unfolding n by blast
  then show ?thesis by (simp add: query_limit_def)
qed

subsection \<open>Replies in group messages\<close>

text \<open>
  C8. The send handler of group messages stores \<open>replyToId\<close> as it comes: a reply to a
  message of another group, and a reply to no message at all, are both inserted.
\<close>

theorem reply_across_groups:
  "fst (post_message two_groups ''m3'' 2 ''a'' ''g1'' ''re'' (Some ''m2''))
     = Inr \<lparr>m_id = ''m3'', m_groupId = ''g1'', m_agentId = ''a'', m_content = ''re'',
            m_replyToId = Some ''m2'', m_createdAt = 2\<rparr> \<and>
   map (\<lambda>m. (m_id m, m_groupId m, m_replyToId m))
       (messages (snd (post_message two_groups ''m3'' 2 ''a'' ''g1'' ''re'' (Some ''m2''))))
     = [(''m2'', ''g2'', None), (''m3'', ''g1'', Some ''m2'')] \<and>
   \<not> list_all
       (reply_in_group (snd (post_message two_groups ''m3'' 2 ''a'' ''g1'' ''re'' (Some ''m2''))))
       (messages (snd (post_message two_groups ''m3'' 2 ''a'' ''g1'' ''re'' (Some ''m2'')))) \<and>
   fst (post_message two_groups ''m3'' 2 ''a'' ''g1'' ''re'' (Some ''m0''))
     = Inr \<lparr>m_id = ''m3'', m_groupId = ''g1'', m_agentId = ''a'', m_content = ''re'',
            m_replyToId = Some ''m0'', m_createdAt = 2\<rparr> \<and>
   map (\<lambda>m. (m_id m, m_groupId m, m_replyToId m))
       (messages (snd (post_message two_groups ''m3'' 2 ''a'' ''g1'' ''re'' (Some ''m0''))))
     = [(''m2'', ''g2'', None), (''m3'', ''g1'', Some ''m0'')]"
  by code_simp

subsection \<open>Removing a reaction from a direct message\<close>

lemma unreact_emits_first:
  assumes "find (\<lambda>m. dm_id m = uuid_in messageId) (directMessages s) = Some message"
  shows "log (snd (delete_dm_reaction s me messageId emoji))
           = log s @ [Emit (AgentRoom (if dm_fromAgentId message = me then dm_toAgentId message
                                       else dm_fromAgentId message))
                        (DmReactionRemoved messageId emoji me),
                      DbDelete DmReactions]"
  using assms by (simp add: delete_dm_reaction_def Let_def)

text \<open>
  C10. The handler emits \<open>dm:reaction:removed\<close> and then deletes the row.
\<close>

theorem unreact_emits_before_delete:
  "dmReactions reacted = [\<lparr>r_messageId = ''d1'', r_agentId = ''b'', r_emoji = thumbs_up\<rparr>] \<and>
   dmReactions (snd (delete_dm_reaction reacted ''b'' ''d1'' thumbs_up)) = [] \<and>
   log (snd (delete_dm_reaction reacted ''b'' ''d1'' thumbs_up))
     = log reacted @ [Emit (AgentRoom ''a'') (DmReactionRemoved ''d1'' thumbs_up ''b''),
                      DbDelete DmReactions]"
  by code_simp

end
